theory Spec2Isabelle
  imports Main
begin

section \<open>JavaScript values and exceptions\<close>

text \<open>
  The route handler \<^verbatim>\<open>src/app/api/(apps)/claude/route.ts\<close> moves plain data between
  external services: the parsed request body, the exports of the per-tool modules, the
  model's answer and the inserted database rows. These are JavaScript values. Functions
  (the export \<^verbatim>\<open>generatePrompt\<close>) are values too; a function value is a handle that the
  runtime knows how to call. The handler never computes with a number, so the payload of
  \<open>JNum\<close> is opaque to it.
\<close>

datatype jsval =
    JUndefined
  | JNull
  | JBool bool
  | JNum int
  | JStr string
  | JArr "jsval list"
  | JObj "(string \<times> jsval) list"
  | JFun nat

text \<open>
  Anything can be thrown in JavaScript. The handler's \<^verbatim>\<open>catch\<close> block only asks whether
  the thrown value is an \<^verbatim>\<open>Error\<close> instance, and then reads its \<^verbatim>\<open>message\<close>.
\<close>

datatype thrown =
    Error_instance string
  | Thrown_value jsval

definition quote :: "string \<Rightarrow> string" where
  "quote k = [CHR 0x27] @ k @ [CHR 0x27]"

text \<open>The \<^verbatim>\<open>TypeError\<close> of reading a property of \<^verbatim>\<open>undefined\<close> or \<^verbatim>\<open>null\<close>.\<close>

definition TypeError_read :: "jsval \<Rightarrow> string \<Rightarrow> thrown" where
  "TypeError_read v k =
     Error_instance (''Cannot read properties of '' @
       (if v = JNull then ''null'' else ''undefined'') @ '' (reading '' @ quote k @ '')'')"

text \<open>The \<^verbatim>\<open>TypeError\<close> of calling a value that is not a function.\<close>

definition TypeError_call :: "string \<Rightarrow> thrown" where
  "TypeError_call f = Error_instance (f @ '' is not a function'')"

text \<open>
  \<^verbatim>\<open>v.k\<close> for the property names the handler and the page read (\<^verbatim>\<open>toolPath\<close>,
  \<^verbatim>\<open>email\<close>, \<^verbatim>\<open>aiModel\<close>, \<^verbatim>\<open>paywall\<close>, \<^verbatim>\<open>slug\<close>, ...): it throws on
  \<^verbatim>\<open>undefined\<close> and \<^verbatim>\<open>null\<close>, finds an own property of an object (the first binding of
  the key), and is \<^verbatim>\<open>undefined\<close> everywhere else, since none of these names is a
  property of a primitive, an array or a function.
\<close>

fun get_prop :: "jsval \<Rightarrow> string \<Rightarrow> thrown + jsval" where
  "get_prop JUndefined k = Inl (TypeError_read JUndefined k)"
| "get_prop JNull k = Inl (TypeError_read JNull k)"
| "get_prop (JObj kvs) k = Inr (case map_of kvs k of None \<Rightarrow> JUndefined | Some v \<Rightarrow> v)"
| "get_prop v k = Inr JUndefined"

text \<open>\<^verbatim>\<open>v[0]\<close>: the first element of an array, the first character of a string.\<close>

fun get_first :: "jsval \<Rightarrow> thrown + jsval" where
  "get_first JUndefined = Inl (TypeError_read JUndefined ''0'')"
| "get_first JNull = Inl (TypeError_read JNull ''0'')"
| "get_first (JArr []) = Inr JUndefined"
| "get_first (JArr (x # xs)) = Inr x"
| "get_first (JStr []) = Inr JUndefined"
| "get_first (JStr (c # cs)) = Inr (JStr [c])"
| "get_first (JObj kvs) = Inr (case map_of kvs ''0'' of None \<Rightarrow> JUndefined | Some v \<Rightarrow> v)"
| "get_first v = Inr JUndefined"

section \<open>Requests, responses and the services the handler calls\<close>

record request =
  req_headers :: "(string \<times> string) list"
  req_body :: string

record response =
  status :: int
  body :: string

text \<open>\<^verbatim>\<open>new NextResponse(body, { status })\<close>\<close>

definition NextResponse :: "string \<Rightarrow> int \<Rightarrow> response" where
  "NextResponse b st = \<lparr>status = st, body = b\<rparr>"

text \<open>The argument of \<^verbatim>\<open>new ChatAnthropic({ model, maxTokens })\<close>.\<close>

record chat_config =
  model :: jsval
  maxTokens :: int

text \<open>
  Everything the handler imports is outside the handler: the authentication middleware,
  the database mutations, the model SDK, the module loader and the built-in functions of
  the runtime. They are parameters of the model, so every theorem holds whatever they do.
  A call that reaches an external service (authentication, reading the request stream,
  the model, the database) takes the state \<open>'w\<close> of the outside world and returns the
  new one; it either throws or returns a value. \<open>'c\<close> is the SDK's chat object and
  \<open>'r\<close> the runnable that \<^verbatim>\<open>withStructuredOutput\<close> makes of it. The module registry
  is fixed when the application is built, so \<open>import_module\<close> does not depend on
  the world; an export that is a function is called through \<open>call_function\<close>.
\<close>

record ('w, 'c, 'r) env =
  authMiddleware :: "request \<Rightarrow> 'w \<Rightarrow> (thrown + response) \<times> 'w"
  request_json :: "request \<Rightarrow> 'w \<Rightarrow> (thrown + jsval) \<times> 'w"
  decodeURIComponent :: "jsval \<Rightarrow> thrown + string"
  import_module :: "string \<Rightarrow> thrown + jsval"
  call_function :: "nat \<Rightarrow> jsval list \<Rightarrow> thrown + jsval"
  ChatAnthropic :: "chat_config \<Rightarrow> thrown + 'c"
  withStructuredOutput :: "'c \<Rightarrow> jsval \<Rightarrow> thrown + 'r"
  invoke :: "'r \<Rightarrow> (string \<times> string) list \<Rightarrow> 'w \<Rightarrow> (thrown + jsval) \<times> 'w"
  String_js :: "jsval \<Rightarrow> string"
  JSON_stringify :: "jsval \<Rightarrow> string"
  uploadToSupabase :: "jsval \<Rightarrow> jsval \<Rightarrow> jsval \<Rightarrow> jsval \<Rightarrow> 'w \<Rightarrow> (thrown + jsval) \<times> 'w"
  reduceUserCredits :: "jsval \<Rightarrow> jsval \<Rightarrow> 'w \<Rightarrow> (thrown + jsval) \<times> 'w"

text \<open>
  What an observer of one run sees, in the order it happens: each call that leaves the
  handler, with its arguments and its outcome (\<open>Inl\<close> when the call threw).
\<close>

datatype 'r event =
    Ev_authMiddleware request "thrown + response"
  | Ev_request_json request "thrown + jsval"
  | Ev_import string "thrown + jsval"
  | Ev_invoke 'r "(string \<times> string) list" "thrown + jsval"
  | Ev_console_log jsval
  | Ev_uploadToSupabase jsval jsval jsval jsval "thrown + jsval"
  | Ev_reduceUserCredits jsval jsval "thrown + jsval"
  | Ev_console_error thrown

section \<open>Computations that may throw, change the world and leave a trace\<close>

type_synonym ('a, 'w, 'r) io = "'w \<times> 'r event list \<Rightarrow> (thrown + 'a) \<times> ('w \<times> 'r event list)"

definition return_io :: "'a \<Rightarrow> ('a, 'w, 'r) io" where
  "return_io x = (\<lambda>s. (Inr x, s))"

text \<open>Sequencing: a throw skips the rest.\<close>

definition bind_io :: "('a, 'w, 'r) io \<Rightarrow> ('a \<Rightarrow> ('b, 'w, 'r) io) \<Rightarrow> ('b, 'w, 'r) io" where
  "bind_io m f = (\<lambda>s. case m s of (Inl e, s') \<Rightarrow> (Inl e, s') | (Inr x, s') \<Rightarrow> f x s')"

text \<open>A step inside the runtime: it throws or returns, and touches nothing outside.\<close>

definition lift_io :: "thrown + 'a \<Rightarrow> ('a, 'w, 'r) io" where
  "lift_io r = (\<lambda>s. (r, s))"

text \<open>A call to an external service: the world changes and the call is recorded.\<close>

definition perform :: "('w \<Rightarrow> (thrown + 'a) \<times> 'w) \<Rightarrow> (thrown + 'a \<Rightarrow> 'r event) \<Rightarrow> ('a, 'w, 'r) io" where
  "perform op ev = (\<lambda>(w, tr). case op w of (res, w') \<Rightarrow> (res, (w', tr @ [ev res])))"

definition emit :: "'r event \<Rightarrow> (unit, 'w, 'r) io" where
  "emit ev = (\<lambda>(w, tr). (Inr (), (w, tr @ [ev])))"

text \<open>\<^verbatim>\<open>try { m } catch (error) { h }\<close>\<close>

definition try_catch :: "('a, 'w, 'r) io \<Rightarrow> (thrown \<Rightarrow> ('a, 'w, 'r) io) \<Rightarrow> ('a, 'w, 'r) io" where
  "try_catch m h = (\<lambda>s. case m s of (Inl e, s') \<Rightarrow> h e s' | (Inr x, s') \<Rightarrow> (Inr x, s'))"

text \<open>\<^verbatim>\<open>f(args)\<close> for a value \<open>f\<close> bound to the name \<open>name\<close>.\<close>

definition call_js :: "('w, 'c, 'r) env \<Rightarrow> string \<Rightarrow> jsval \<Rightarrow> jsval list \<Rightarrow> thrown + jsval" where
  "call_js env name f args =
     (case f of JFun fid \<Rightarrow> call_function env fid args | _ \<Rightarrow> Inl (TypeError_call name))"

text \<open>\<^verbatim>\<open>await import(path)\<close>\<close>

definition import_io :: "('w, 'c, 'r) env \<Rightarrow> string \<Rightarrow> (jsval, 'w, 'r) io" where
  "import_io env path = perform (\<lambda>w. (import_module env path, w)) (Ev_import path)"

section \<open>The route handler\<close>

text \<open>
  The \<^verbatim>\<open>try\<close> block of \<^verbatim>\<open>POST\<close> is one sequence of statements. It is written here
  in the five groups that the comments of the source mark, each statement in its place.

  Lines 32 to 39, ``Extract and decode tool path'' and ``Dynamically import tool
  configurations'': the request body, and the three exports of the tool's modules.
\<close>

definition POST_load ::
  "('w, 'c, 'r) env \<Rightarrow> request \<Rightarrow> (jsval \<times> jsval \<times> jsval \<times> jsval, 'w, 'r) io" where
  "POST_load env request =
     bind_io (perform (request_json env request) (Ev_request_json request)) (\<lambda>requestBody.
     bind_io (lift_io (get_prop requestBody ''toolPath'')) (\<lambda>rawToolPath.
     bind_io (lift_io (decodeURIComponent env rawToolPath)) (\<lambda>toolPath.
     bind_io (import_io env (''@/app/'' @ toolPath @ ''/toolConfig'')) (\<lambda>module1.
     bind_io (lift_io (get_prop module1 ''toolConfig'')) (\<lambda>toolConfig.
     bind_io (import_io env (''@/app/'' @ toolPath @ ''/schema'')) (\<lambda>module2.
     bind_io (lift_io (get_prop module2 ''functionSchema'')) (\<lambda>functionSchema.
     bind_io (import_io env (''@/app/'' @ toolPath @ ''/prompt'')) (\<lambda>module3.
     bind_io (lift_io (get_prop module3 ''generatePrompt'')) (\<lambda>generatePrompt.
     return_io (requestBody, toolConfig, functionSchema, generatePrompt))))))))))"

text \<open>
  Lines 41 to 60, ``Prepare prompt and function call'' to ``Generate response from
  Claude'': the model's answer.
\<close>

definition POST_generate ::
  "('w, 'c, 'r) env \<Rightarrow> jsval \<Rightarrow> jsval \<Rightarrow> jsval \<Rightarrow> jsval \<Rightarrow> (jsval, 'w, 'r) io" where
  "POST_generate env requestBody toolConfig functionSchema generatePrompt =
     bind_io (lift_io (get_first functionSchema)) (\<lambda>functionCall.
     bind_io (lift_io (call_js env ''generatePrompt'' generatePrompt [requestBody])) (\<lambda>prompt.
     bind_io (lift_io (get_prop toolConfig ''aiModel'')) (\<lambda>aiModel.
     bind_io (lift_io (ChatAnthropic env \<lparr>model = aiModel, maxTokens = 2000\<rparr>)) (\<lambda>chat.
     bind_io (lift_io (withStructuredOutput env chat functionCall)) (\<lambda>chatWithStructuredOutput.
     bind_io (lift_io (get_prop toolConfig ''systemMessage'')) (\<lambda>systemMessage.
     bind_io (perform
         (invoke env chatWithStructuredOutput
            [(''system'', String_js env systemMessage), (''human'', String_js env prompt)])
         (Ev_invoke chatWithStructuredOutput
            [(''system'', String_js env systemMessage), (''human'', String_js env prompt)]))
       (\<lambda>responseData.
     bind_io (emit (Ev_console_log responseData)) (\<lambda>_.
     return_io responseData))))))))"

text \<open>Lines 62 to 68, ``Store generation in database'': the inserted rows.\<close>

definition POST_store ::
  "('w, 'c, 'r) env \<Rightarrow> jsval \<Rightarrow> jsval \<Rightarrow> jsval \<Rightarrow> (jsval, 'w, 'r) io" where
  "POST_store env requestBody responseData toolConfig =
     bind_io (lift_io (get_prop toolConfig ''toolPath'')) (\<lambda>configToolPath.
     bind_io (lift_io (get_prop toolConfig ''aiModel'')) (\<lambda>configAiModel.
     perform
       (uploadToSupabase env requestBody responseData configToolPath configAiModel)
       (Ev_uploadToSupabase requestBody responseData configToolPath configAiModel)))"

text \<open>
  Lines 70 to 73, ``Handle paywall credits''. \<^verbatim>\<open>===\<close> is strict: only the boolean
  \<^verbatim>\<open>true\<close> is equal to \<^verbatim>\<open>true\<close>.
\<close>

definition POST_paywall :: "('w, 'c, 'r) env \<Rightarrow> jsval \<Rightarrow> jsval \<Rightarrow> (unit, 'w, 'r) io" where
  "POST_paywall env requestBody toolConfig =
     bind_io (lift_io (get_prop toolConfig ''paywall'')) (\<lambda>paywall.
     if paywall = JBool True then
       bind_io (lift_io (get_prop requestBody ''email'')) (\<lambda>email.
       bind_io (lift_io (get_prop toolConfig ''credits'')) (\<lambda>credits.
       bind_io (perform (reduceUserCredits env email credits)
                  (Ev_reduceUserCredits email credits)) (\<lambda>_.
       return_io ())))
     else return_io ())"

text \<open>Lines 75 to 80: the response of a successful run.\<close>

definition POST_respond :: "('w, 'c, 'r) env \<Rightarrow> jsval \<Rightarrow> (response, 'w, 'r) io" where
  "POST_respond env supabaseResponse =
     bind_io (lift_io (get_first supabaseResponse)) (\<lambda>row.
     bind_io (lift_io (get_prop row ''slug'')) (\<lambda>slug.
     return_io (NextResponse (JSON_stringify env (JObj [(''slug'', slug)])) 200)))"

text \<open>The whole \<^verbatim>\<open>try\<close> block, lines 31 to 80.\<close>

definition POST_try :: "('w, 'c, 'r) env \<Rightarrow> request \<Rightarrow> (response, 'w, 'r) io" where
  "POST_try env request =
     bind_io (POST_load env request) (\<lambda>(requestBody, toolConfig, functionSchema, generatePrompt).
     bind_io (POST_generate env requestBody toolConfig functionSchema generatePrompt)
       (\<lambda>responseData.
     bind_io (POST_store env requestBody responseData toolConfig) (\<lambda>supabaseResponse.
     bind_io (POST_paywall env requestBody toolConfig) (\<lambda>_.
     POST_respond env supabaseResponse))))"

text \<open>The \<^verbatim>\<open>catch (error)\<close> block of \<^verbatim>\<open>POST\<close>.\<close>

definition POST_catch :: "('w, 'c, 'r) env \<Rightarrow> thrown \<Rightarrow> (response, 'w, 'r) io" where
  "POST_catch env error =
     bind_io (emit (Ev_console_error error)) (\<lambda>_.
     return_io (NextResponse
       (JSON_stringify env (JObj
          [(''status'', JStr ''Error''),
           (''message'', JStr (case error of
                                 Error_instance m \<Rightarrow> m
                               | Thrown_value v \<Rightarrow> ''An unknown error occurred''))]))
       500))"

text \<open>
  \<^verbatim>\<open>export async function POST(request)\<close>. The call of \<^verbatim>\<open>authMiddleware\<close> is outside
  the \<^verbatim>\<open>try\<close>: when it throws, the promise that \<^verbatim>\<open>POST\<close> returns rejects (\<open>Inl\<close>).
\<close>

definition POST_io :: "('w, 'c, 'r) env \<Rightarrow> request \<Rightarrow> (response, 'w, 'r) io" where
  "POST_io env request =
     bind_io (perform (authMiddleware env request) (Ev_authMiddleware request)) (\<lambda>authResponse.
     if status authResponse = 401 then return_io authResponse
     else try_catch (POST_try env request) (POST_catch env))"

text \<open>One run of the handler, from a world \<open>w\<close> and an empty trace.\<close>

definition POST :: "('w, 'c, 'r) env \<Rightarrow> request \<Rightarrow> 'w \<Rightarrow> (thrown + response) \<times> ('w \<times> 'r event list)" where
  "POST env request w = POST_io env request (w, [])"

section \<open>The GPT tool page\<close>

text \<open>
  \<^verbatim>\<open>src/app/(apps)/gpt/page.tsx\<close>. A JSX expression builds an element: a description
  of what to render, naming a component and its props. Building it calls no component.
  The eight components are the eight imports of the file.
\<close>

datatype component = Navbar | Hero | Testimonials | Pricing | How | FAQ | CTA | Footer

datatype element =
    Fragment "element list"
  | Div "(string \<times> jsval) list" "element list"
  | Component_element component "(string \<times> jsval) list"

text \<open>
  \<^verbatim>\<open>export default function Page()\<close>, as a function of the imported \<^verbatim>\<open>toolConfig\<close>
  object (its module is a static configuration object). The non-null assertions
  \<^verbatim>\<open>toolConfig.company!\<close> are erased by the compiler; reading \<^verbatim>\<open>.theme\<close> of a missing
  \<^verbatim>\<open>company\<close> throws.
\<close>

definition Page :: "jsval \<Rightarrow> (element, 'w, 'r) io" where
  "Page toolConfig =
     bind_io (lift_io (get_prop toolConfig ''company'')) (\<lambda>company0.
     bind_io (lift_io (get_prop company0 ''theme'')) (\<lambda>theme.
     bind_io (lift_io (get_prop toolConfig ''company'')) (\<lambda>company1.
     bind_io (lift_io (get_prop toolConfig ''navbarLanding'')) (\<lambda>navbarLanding.
     bind_io (lift_io (get_prop toolConfig ''company'')) (\<lambda>company2.
     bind_io (lift_io (get_prop toolConfig ''footerLanding'')) (\<lambda>footerLanding.
     return_io
       (Fragment
         [Div [(''data-theme'', theme)]
           [Component_element Navbar
              [(''companyConfig'', company1), (''navbarConfig'', navbarLanding)],
            Component_element Hero [],
            Component_element How [],
            Component_element Pricing [],
            Component_element Testimonials [],
            Component_element CTA [],
            Component_element FAQ [],
            Component_element Footer
              [(''companyConfig'', company2), (''footerConfig'', footerLanding)]]])
     ))))))"

text \<open>\<^verbatim>\<open>export const metadata\<close>, evaluated once when the page module is loaded.\<close>

definition bind_result :: "thrown + 'a \<Rightarrow> ('a \<Rightarrow> thrown + 'b) \<Rightarrow> thrown + 'b" where
  "bind_result r f = (case r of Inl e \<Rightarrow> Inl e | Inr x \<Rightarrow> f x)"

definition metadata :: "jsval \<Rightarrow> thrown + jsval" where
  "metadata toolConfig =
     bind_result (get_prop toolConfig ''metadata'') (\<lambda>m1.
     bind_result (get_prop m1 ''title'') (\<lambda>title.
     bind_result (get_prop toolConfig ''metadata'') (\<lambda>m2.
     bind_result (get_prop m2 ''description'') (\<lambda>description.
     bind_result (get_prop toolConfig ''metadata'') (\<lambda>m3.
     bind_result (get_prop m3 ''og_image'') (\<lambda>og_image.
     bind_result (get_prop toolConfig ''metadata'') (\<lambda>m4.
     bind_result (get_prop m4 ''canonical'') (\<lambda>canonical.
     Inr (JObj
       [(''title'', title),
        (''description'', description),
        (''openGraph'', JObj [(''images'', JArr [og_image])]),
        (''alternates'', JObj [(''canonical'', canonical)])])
     ))))))))"

text \<open>The sections of a page, in the order they are rendered.\<close>

fun sections :: "element \<Rightarrow> component list" where
  "sections (Fragment es) = concat (map sections es)"
| "sections (Div attrs es) = concat (map sections es)"
| "sections (Component_element c props) = [c]"

section \<open>Reading a trace\<close>

text \<open>The three library calls of the handler's pipeline: model, insert, credits.\<close>

fun is_invoke :: "'r event \<Rightarrow> bool" where
  "is_invoke (Ev_invoke r msgs out) = True"
| "is_invoke ev = False"

fun is_upload :: "'r event \<Rightarrow> bool" where
  "is_upload (Ev_uploadToSupabase a b c d out) = True"
| "is_upload ev = False"

fun is_reduce :: "'r event \<Rightarrow> bool" where
  "is_reduce (Ev_reduceUserCredits e c out) = True"
| "is_reduce ev = False"

fun is_import :: "'r event \<Rightarrow> bool" where
  "is_import (Ev_import p out) = True"
| "is_import ev = False"

definition is_pipeline_call :: "'r event \<Rightarrow> bool" where
  "is_pipeline_call ev = (is_invoke ev \<or> is_upload ev \<or> is_reduce ev)"

text \<open>
  What a step of the handler body threw, for the steps that leave the runtime: parsing
  the request body, importing a module, invoking the model, the insert and the credit
  decrement.
\<close>

fun thrown_by :: "'r event \<Rightarrow> thrown option" where
  "thrown_by (Ev_request_json q (Inl e)) = Some e"
| "thrown_by (Ev_import p (Inl e)) = Some e"
| "thrown_by (Ev_invoke r msgs (Inl e)) = Some e"
| "thrown_by (Ev_uploadToSupabase a b c d (Inl e)) = Some e"
| "thrown_by (Ev_reduceUserCredits m c (Inl e)) = Some e"
| "thrown_by ev = None"

text \<open>The response of the \<^verbatim>\<open>catch\<close> block for a thrown value.\<close>

definition error_message :: "thrown \<Rightarrow> string" where
  "error_message error =
     (case error of Error_instance m \<Rightarrow> m | Thrown_value v \<Rightarrow> ''An unknown error occurred'')"

definition error_response :: "('w, 'c, 'r) env \<Rightarrow> thrown \<Rightarrow> response" where
  "error_response env error =
     \<lparr>status = 500,
      body = JSON_stringify env
        (JObj [(''status'', JStr ''Error''), (''message'', JStr (error_message error))])\<rparr>"

text \<open>The three parts of a finished run.\<close>

definition result_of :: "(thrown + response) \<times> ('w \<times> 'r event list) \<Rightarrow> thrown + response" where
  "result_of run = fst run"

definition world_of :: "(thrown + response) \<times> ('w \<times> 'r event list) \<Rightarrow> 'w" where
  "world_of run = fst (snd run)"

definition trace_of :: "(thrown + response) \<times> ('w \<times> 'r event list) \<Rightarrow> 'r event list" where
  "trace_of run = snd (snd run)"

section \<open>A small world to run the handler in\<close>

text \<open>
  One instance of the services, to evaluate the handler on concrete requests. The world
  is the table of stored generations. A request is authenticated by an
  \<^verbatim>\<open>authorization\<close> header (none: 401, \<^verbatim>\<open>guest\<close>: 403); its body names the tool
  and, after a semicolon, the e-mail address. There is one tool, \<^verbatim>\<open>claude\<close>, behind
  the paywall at five credits. Credits can only be taken from a user that has an e-mail
  address.
\<close>

definition demo_metadata :: jsval where
  "demo_metadata = JObj
     [(''title'', JStr ''Acme GPT''),
      (''description'', JStr ''Generate text''),
      (''og_image'', JStr ''/og.png''),
      (''canonical'', JStr ''https://acme.example/gpt'')]"

definition demo_toolConfig :: jsval where
  "demo_toolConfig = JObj
     [(''toolPath'', JStr ''claude''),
      (''aiModel'', JStr ''claude-3-sonnet''),
      (''systemMessage'', JStr ''You are a helpful assistant''),
      (''paywall'', JBool True),
      (''credits'', JNum 5),
      (''company'', JObj [(''name'', JStr ''Acme''), (''theme'', JStr ''light'')]),
      (''navbarLanding'', JObj [(''links'', JArr [])]),
      (''footerLanding'', JObj [(''copyright'', JStr ''Acme'')]),
      (''metadata'', demo_metadata)]"

definition demo_body :: "string \<Rightarrow> thrown + jsval" where
  "demo_body text =
     (if text = [] then Inl (Error_instance ''Unexpected end of JSON input'')
      else if CHR '';'' \<in> set text then
        Inr (JObj [(''toolPath'', JStr (takeWhile (\<lambda>c. c \<noteq> CHR '';'') text)),
                   (''email'', JStr (tl (dropWhile (\<lambda>c. c \<noteq> CHR '';'') text)))])
      else Inr (JObj [(''toolPath'', JStr text)]))"

definition demo_modules :: "string \<Rightarrow> thrown + jsval" where
  "demo_modules path =
     (if path = ''@/app/claude/toolConfig'' then Inr (JObj [(''toolConfig'', demo_toolConfig)])
      else if path = ''@/app/claude/schema'' then
        Inr (JObj [(''functionSchema'', JArr [JObj [(''name'', JStr ''reply'')]])])
      else if path = ''@/app/claude/prompt'' then Inr (JObj [(''generatePrompt'', JFun 0)])
      else Inl (Error_instance ''Cannot find module''))"

definition demo_stringify :: "jsval \<Rightarrow> string" where
  "demo_stringify v =
     (case v of
        JObj kvs \<Rightarrow>
          concat (map (\<lambda>(k, x). k @ '':'' @ (case x of JStr t \<Rightarrow> t | _ \<Rightarrow> ''null'') @ '';'') kvs)
      | _ \<Rightarrow> ''null'')"

definition demo_env :: "(jsval list, chat_config, chat_config \<times> jsval) env" where
  "demo_env =
     \<lparr>authMiddleware = (\<lambda>q w.
        (Inr \<lparr>status = (case map_of (req_headers q) ''authorization'' of
                          None \<Rightarrow> 401
                        | Some t \<Rightarrow> if t = ''guest'' then 403 else 200),
              body = []\<rparr>, w)),
      request_json = (\<lambda>q w. (demo_body (req_body q), w)),
      decodeURIComponent = (\<lambda>v.
        case v of
          JStr t \<Rightarrow> if CHR ''%'' \<in> set t then Inl (Error_instance ''URI malformed'') else Inr t
        | _ \<Rightarrow> Inr ''undefined''),
      import_module = demo_modules,
      call_function = (\<lambda>fid args.
        if fid = 0 then Inr (JStr ''Write a reply'') else Inl (Error_instance ''no such function'')),
      ChatAnthropic = Inr,
      withStructuredOutput = (\<lambda>chat schema. Inr (chat, schema)),
      invoke = (\<lambda>r msgs w. (Inr (JObj [(''reply'', JStr ''hello'')]), w)),
      String_js = (\<lambda>v. case v of JStr t \<Rightarrow> t | _ \<Rightarrow> ''undefined''),
      JSON_stringify = demo_stringify,
      uploadToSupabase = (\<lambda>rb rd tp am w.
        (Inr (JArr [JObj [(''slug'', JStr ''generation-1'')]]),
         w @ [JObj [(''slug'', JStr ''generation-1''), (''input'', rb), (''output'', rd)]])),
      reduceUserCredits = (\<lambda>email credits w.
        (case email of JStr t \<Rightarrow> Inr JUndefined | _ \<Rightarrow> Inl (Error_instance ''no such user''), w))\<rparr>"

text \<open>A signed-in user, a guest (status 403), an anonymous caller, a body without e-mail.\<close>

definition demo_request :: request where
  "demo_request = \<lparr>req_headers = [(''authorization'', ''token'')], req_body = ''claude;ann@example.org''\<rparr>"

definition guest_request :: request where
  "guest_request = \<lparr>req_headers = [(''authorization'', ''guest'')], req_body = ''claude;ann@example.org''\<rparr>"

definition anonymous_request :: request where
  "anonymous_request = \<lparr>req_headers = [], req_body = ''claude;ann@example.org''\<rparr>"

definition no_email_request :: request where
  "no_email_request = \<lparr>req_headers = [(''authorization'', ''token'')], req_body = ''claude''\<rparr>"

text \<open>The values that occur in the runs of these requests.\<close>

definition demo_requestBody :: jsval where
  "demo_requestBody = JObj [(''toolPath'', JStr ''claude''), (''email'', JStr ''ann@example.org'')]"

definition demo_answer :: jsval where
  "demo_answer = JObj [(''reply'', JStr ''hello'')]"

definition demo_runnable :: "chat_config \<times> jsval" where
  "demo_runnable =
     (\<lparr>model = JStr ''claude-3-sonnet'', maxTokens = 2000\<rparr>, JObj [(''name'', JStr ''reply'')])"

definition demo_messages :: "(string \<times> string) list" where
  "demo_messages = [(''system'', ''You are a helpful assistant''), (''human'', ''Write a reply'')]"

definition demo_inserted :: jsval where
  "demo_inserted = JArr [JObj [(''slug'', JStr ''generation-1'')]]"

definition demo_upload :: "jsval \<Rightarrow> (chat_config \<times> jsval) event" where
  "demo_upload requestBody =
     Ev_uploadToSupabase requestBody demo_answer (JStr ''claude'') (JStr ''claude-3-sonnet'')
       (Inr demo_inserted)"

definition demo_stored :: "jsval \<Rightarrow> jsval" where
  "demo_stored requestBody =
     JObj [(''slug'', JStr ''generation-1''), (''input'', requestBody), (''output'', demo_answer)]"

definition demo_imports :: "(chat_config \<times> jsval) event list" where
  "demo_imports =
     [Ev_import ''@/app/claude/toolConfig'' (Inr (JObj [(''toolConfig'', demo_toolConfig)])),
      Ev_import ''@/app/claude/schema''
        (Inr (JObj [(''functionSchema'', JArr [JObj [(''name'', JStr ''reply'')]])])),
      Ev_import ''@/app/claude/prompt'' (Inr (JObj [(''generatePrompt'', JFun 0)]))]"

section \<open>How a run of the handler unfolds\<close>

lemmas io_defs = bind_io_def return_io_def lift_io_def perform_def emit_def import_io_def

lemma imports_only:
  "\<forall>ev \<in> set evs. is_import ev \<Longrightarrow>
     filter is_invoke evs = [] \<and> filter is_upload evs = [] \<and> filter is_reduce evs = []"
  by (induction evs) (auto elim: is_import.elims)

text \<open>Each group of statements, run from a world \<open>w\<close> and a trace \<open>tr0\<close>.\<close>

lemma POST_load_Inr:
  assumes "POST_load env request (w, tr0) = (Inr (rb, tc, fs, gp), (w', tr))"
  shows "\<exists>raw toolPath m1 m2 m3.
     request_json env request w = (Inr rb, w') \<and>
     get_prop rb ''toolPath'' = Inr raw \<and>
     decodeURIComponent env raw = Inr toolPath \<and>
     import_module env (''@/app/'' @ toolPath @ ''/toolConfig'') = Inr m1 \<and>
     get_prop m1 ''toolConfig'' = Inr tc \<and>
     import_module env (''@/app/'' @ toolPath @ ''/schema'') = Inr m2 \<and>
     get_prop m2 ''functionSchema'' = Inr fs \<and>
     import_module env (''@/app/'' @ toolPath @ ''/prompt'') = Inr m3 \<and>
     get_prop m3 ''generatePrompt'' = Inr gp \<and>
     tr = tr0 @ [Ev_request_json request (Inr rb),
                 Ev_import (''@/app/'' @ toolPath @ ''/toolConfig'') (Inr m1),
                 Ev_import (''@/app/'' @ toolPath @ ''/schema'') (Inr m2),
                 Ev_import (''@/app/'' @ toolPath @ ''/prompt'') (Inr m3)]"
  using assms
  by (auto simp: POST_load_def io_defs split: sum.splits prod.splits)

lemma POST_load_Inl:
  assumes "POST_load env request (w, tr0) = (Inl e, (w', tr))"
  shows "\<exists>out evs. request_json env request w = (out, w') \<and>
     tr = tr0 @ Ev_request_json request out # evs \<and>
     (\<forall>ev \<in> set evs. is_import ev) \<and>
     (\<forall>ev \<in> set (Ev_request_json request out # evs). \<forall>x. thrown_by ev = Some x \<longrightarrow> x = e)"
  using assms
  by (auto simp: POST_load_def io_defs split: sum.splits prod.splits)

lemma POST_generate_run:
  assumes "POST_generate env rb tc fs gp (w, tr0) = (res, (w', tr))"
  shows "(\<exists>e. res = Inl e \<and> w' = w \<and> tr = tr0) \<or>
     (\<exists>fc prompt am chat r sys out.
        get_first fs = Inr fc \<and>
        call_js env ''generatePrompt'' gp [rb] = Inr prompt \<and>
        get_prop tc ''aiModel'' = Inr am \<and>
        ChatAnthropic env \<lparr>model = am, maxTokens = 2000\<rparr> = Inr chat \<and>
        withStructuredOutput env chat fc = Inr r \<and>
        get_prop tc ''systemMessage'' = Inr sys \<and>
        invoke env r [(''system'', String_js env sys), (''human'', String_js env prompt)] w
          = (out, w') \<and>
        res = out \<and>
        tr = tr0 @
          Ev_invoke r [(''system'', String_js env sys), (''human'', String_js env prompt)] out #
          (case out of Inl e \<Rightarrow> [] | Inr rd \<Rightarrow> [Ev_console_log rd]))"
  using assms
  by (auto simp: POST_generate_def io_defs split: sum.splits prod.splits)

lemma POST_store_run:
  assumes "POST_store env rb rd tc (w, tr0) = (res, (w', tr))"
  shows "(\<exists>e k. res = Inl e \<and> get_prop tc k = Inl e \<and> w' = w \<and> tr = tr0) \<or>
     (\<exists>tp am. get_prop tc ''toolPath'' = Inr tp \<and> get_prop tc ''aiModel'' = Inr am \<and>
        uploadToSupabase env rb rd tp am w = (res, w') \<and>
        tr = tr0 @ [Ev_uploadToSupabase rb rd tp am res])"
  using assms
  by (auto simp: POST_store_def io_defs split: sum.splits prod.splits) metis+

lemma POST_paywall_run:
  assumes "POST_paywall env rb tc (w, tr0) = (res, (w', tr))"
  shows "(\<exists>e k. res = Inl e \<and> (get_prop tc k = Inl e \<or> get_prop rb k = Inl e) \<and>
            w' = w \<and> tr = tr0) \<or>
     (\<exists>p. get_prop tc ''paywall'' = Inr p \<and> p \<noteq> JBool True \<and> res = Inr () \<and>
            w' = w \<and> tr = tr0) \<or>
     (\<exists>email credits rout. get_prop tc ''paywall'' = Inr (JBool True) \<and>
        get_prop rb ''email'' = Inr email \<and> get_prop tc ''credits'' = Inr credits \<and>
        reduceUserCredits env email credits w = (rout, w') \<and>
        tr = tr0 @ [Ev_reduceUserCredits email credits rout] \<and>
        ((\<exists>e. rout = Inl e \<and> res = Inl e) \<or> (\<exists>u. rout = Inr u \<and> res = Inr ())))"
  using assms
  by (auto simp: POST_paywall_def io_defs split: sum.splits prod.splits if_splits)

lemma POST_respond_run:
  assumes "POST_respond env sr (w, tr0) = (res, (w', tr))"
  shows "w' = w \<and> tr = tr0 \<and>
     ((\<exists>e. res = Inl e \<and>
          (get_first sr = Inl e \<or> (\<exists>row. get_first sr = Inr row \<and> get_prop row ''slug'' = Inl e))) \<or>
      (\<exists>row slug. get_first sr = Inr row \<and> get_prop row ''slug'' = Inr slug \<and>
          res = Inr \<lparr>status = 200, body = JSON_stringify env (JObj [(''slug'', slug)])\<rparr>))"
  using assms
  by (auto simp: POST_respond_def NextResponse_def io_defs split: sum.splits prod.splits)

lemma POST_load_Inl_paths:
  assumes "POST_load env request (w, tr0) = (Inl e, (w', tr))"
  shows "\<exists>out evs. request_json env request w = (out, w') \<and>
     tr = tr0 @ Ev_request_json request out # evs \<and>
     length evs \<le> 3 \<and>
     (\<forall>ev \<in> set evs. is_import ev) \<and>
     (\<forall>path io. Ev_import path io \<in> set evs \<longrightarrow>
        (\<exists>rb raw toolPath.
           out = Inr rb \<and>
           get_prop rb ''toolPath'' = Inr raw \<and>
           decodeURIComponent env raw = Inr toolPath \<and>
           (path = ''@/app/'' @ toolPath @ ''/toolConfig'' \<or>
            path = ''@/app/'' @ toolPath @ ''/schema'' \<or>
            path = ''@/app/'' @ toolPath @ ''/prompt'')))"
  using assms
  by (auto simp: POST_load_def io_defs split: sum.splits prod.splits)

lemmas group_runs =
  POST_load_Inl POST_load_Inr POST_generate_run POST_store_run POST_paywall_run POST_respond_run

text \<open>The \<^verbatim>\<open>catch\<close> block logs the thrown value and answers with status 500.\<close>

lemma POST_catch_eq:
  "POST_catch env e (w, tr) = (Inr (error_response env e), (w, tr @ [Ev_console_error e]))"
  by (simp add: POST_catch_def io_defs error_response_def error_message_def NextResponse_def)

text \<open>A run without a 401 is the \<^verbatim>\<open>try\<close> block under the \<^verbatim>\<open>catch\<close> block.\<close>

lemma POST_authenticated:
  assumes "authMiddleware env request w = (Inr a, w1)" and "status a \<noteq> 401"
  shows "POST env request w =
     try_catch (POST_try env request) (POST_catch env) (w1, [Ev_authMiddleware request (Inr a)])"
  using assms by (simp add: POST_def POST_io_def bind_io_def perform_def)

text \<open>
  Every run of \<^verbatim>\<open>POST\<close> ends in one of nine ways: the middleware throws; it answers
  401; a statement of one of the first four groups throws and the \<^verbatim>\<open>catch\<close> block
  answers; the last group throws; or the run succeeds.
\<close>

lemma POST_run_cases [consumes 1, case_names auth_threw unauthorized load_failed
    generate_failed store_failed paywall_failed respond_failed succeeded]:
  assumes "POST env request w = (res, (w', tr))"
  obtains
    e where "authMiddleware env request w = (Inl e, w')" "res = Inl e"
      "tr = [Ev_authMiddleware request (Inl e)]"
  | a where "authMiddleware env request w = (Inr a, w')" "status a = 401" "res = Inr a"
      "tr = [Ev_authMiddleware request (Inr a)]"
  | a w1 e tr1 where
      "authMiddleware env request w = (Inr a, w1)" "status a \<noteq> 401"
      "POST_load env request (w1, [Ev_authMiddleware request (Inr a)]) = (Inl e, (w', tr1))"
      "res = Inr (error_response env e)" "tr = tr1 @ [Ev_console_error e]"
  | a w1 rb tc fs gp w2 tr2 e tr1 where
      "authMiddleware env request w = (Inr a, w1)" "status a \<noteq> 401"
      "POST_load env request (w1, [Ev_authMiddleware request (Inr a)])
         = (Inr (rb, tc, fs, gp), (w2, tr2))"
      "POST_generate env rb tc fs gp (w2, tr2) = (Inl e, (w', tr1))"
      "res = Inr (error_response env e)" "tr = tr1 @ [Ev_console_error e]"
  | a w1 rb tc fs gp w2 tr2 rd w3 tr3 e tr1 where
      "authMiddleware env request w = (Inr a, w1)" "status a \<noteq> 401"
      "POST_load env request (w1, [Ev_authMiddleware request (Inr a)])
         = (Inr (rb, tc, fs, gp), (w2, tr2))"
      "POST_generate env rb tc fs gp (w2, tr2) = (Inr rd, (w3, tr3))"
      "POST_store env rb rd tc (w3, tr3) = (Inl e, (w', tr1))"
      "res = Inr (error_response env e)" "tr = tr1 @ [Ev_console_error e]"
  | a w1 rb tc fs gp w2 tr2 rd w3 tr3 sr w4 tr4 e tr1 where
      "authMiddleware env request w = (Inr a, w1)" "status a \<noteq> 401"
      "POST_load env request (w1, [Ev_authMiddleware request (Inr a)])
         = (Inr (rb, tc, fs, gp), (w2, tr2))"
      "POST_generate env rb tc fs gp (w2, tr2) = (Inr rd, (w3, tr3))"
      "POST_store env rb rd tc (w3, tr3) = (Inr sr, (w4, tr4))"
      "POST_paywall env rb tc (w4, tr4) = (Inl e, (w', tr1))"
      "res = Inr (error_response env e)" "tr = tr1 @ [Ev_console_error e]"
  | a w1 rb tc fs gp w2 tr2 rd w3 tr3 sr w4 tr4 w5 tr5 e tr1 where
      "authMiddleware env request w = (Inr a, w1)" "status a \<noteq> 401"
      "POST_load env request (w1, [Ev_authMiddleware request (Inr a)])
         = (Inr (rb, tc, fs, gp), (w2, tr2))"
      "POST_generate env rb tc fs gp (w2, tr2) = (Inr rd, (w3, tr3))"
      "POST_store env rb rd tc (w3, tr3) = (Inr sr, (w4, tr4))"
      "POST_paywall env rb tc (w4, tr4) = (Inr (), (w5, tr5))"
      "POST_respond env sr (w5, tr5) = (Inl e, (w', tr1))"
      "res = Inr (error_response env e)" "tr = tr1 @ [Ev_console_error e]"
  | a w1 rb tc fs gp w2 tr2 rd w3 tr3 sr w4 tr4 w5 tr5 resp where
      "authMiddleware env request w = (Inr a, w1)" "status a \<noteq> 401"
      "POST_load env request (w1, [Ev_authMiddleware request (Inr a)])
         = (Inr (rb, tc, fs, gp), (w2, tr2))"
      "POST_generate env rb tc fs gp (w2, tr2) = (Inr rd, (w3, tr3))"
      "POST_store env rb rd tc (w3, tr3) = (Inr sr, (w4, tr4))"
      "POST_paywall env rb tc (w4, tr4) = (Inr (), (w5, tr5))"
      "POST_respond env sr (w5, tr5) = (Inr resp, (w', tr))"
      "res = Inr resp"
  using assms
  unfolding POST_def POST_io_def try_catch_def POST_try_def bind_io_def perform_def return_io_def
  by (auto simp: POST_catch_eq split: sum.splits prod.splits if_splits)

lemma run_parts:
  "POST env request w =
     (result_of (POST env request w), (world_of (POST env request w), trace_of (POST env request w)))"
  by (simp add: result_of_def world_of_def trace_of_def)

lemma imports_only_mem:
  assumes "\<forall>ev \<in> set evs. is_import ev"
  shows "Ev_invoke r msgs out \<notin> set evs"
    and "Ev_uploadToSupabase a b c d out \<notin> set evs"
    and "Ev_reduceUserCredits e k out \<notin> set evs"
    and "Ev_request_json q out' \<notin> set evs"
  using assms by auto

text \<open>A value whose property can be read is neither \<^verbatim>\<open>undefined\<close> nor \<^verbatim>\<open>null\<close>.\<close>

lemma get_prop_clash: "get_prop v k = Inl e \<Longrightarrow> get_prop v k' = Inr x \<Longrightarrow> False"
  by (cases v) auto

text \<open>
  What a computation returns and the world it leaves do not depend on the trace it starts
  from: the trace is written, never read.
\<close>

lemma blind_bind:
  assumes "\<And>w t t'. fst (m (w, t)) = fst (m (w, t')) \<and> fst (snd (m (w, t))) = fst (snd (m (w, t')))"
    and "\<And>x w t t'. fst (f x (w, t)) = fst (f x (w, t')) \<and> fst (snd (f x (w, t))) = fst (snd (f x (w, t')))"
  shows "fst (bind_io m f (w, t)) = fst (bind_io m f (w, t')) \<and>
         fst (snd (bind_io m f (w, t))) = fst (snd (bind_io m f (w, t')))"
proof -
  obtain r1 w1 t1 where a: "m (w, t) = (r1, (w1, t1))" by (metis surj_pair)
  obtain r2 w2 t2 where b: "m (w, t') = (r2, (w2, t2))" by (metis surj_pair)
  from assms(1)[of w t t'] a b have eq: "r1 = r2" "w1 = w2" by auto
  show ?thesis
    using assms(2) by (cases r1) (auto simp: bind_io_def a b eq)
qed

lemma blind_try_catch:
  assumes "\<And>w t t'. fst (m (w, t)) = fst (m (w, t')) \<and> fst (snd (m (w, t))) = fst (snd (m (w, t')))"
    and "\<And>x w t t'. fst (h x (w, t)) = fst (h x (w, t')) \<and> fst (snd (h x (w, t))) = fst (snd (h x (w, t')))"
  shows "fst (try_catch m h (w, t)) = fst (try_catch m h (w, t')) \<and>
         fst (snd (try_catch m h (w, t))) = fst (snd (try_catch m h (w, t')))"
proof -
  obtain r1 w1 t1 where a: "m (w, t) = (r1, (w1, t1))" by (metis surj_pair)
  obtain r2 w2 t2 where b: "m (w, t') = (r2, (w2, t2))" by (metis surj_pair)
  from assms(1)[of w t t'] a b have eq: "r1 = r2" "w1 = w2" by auto
  show ?thesis
    using assms(2) by (cases r1) (auto simp: try_catch_def a b eq)
qed

lemma blind_prims:
  "fst (return_io x (w, t)) = fst (return_io x (w, t')) \<and>
   fst (snd (return_io x (w, t))) = fst (snd (return_io x (w, t')))"
  "fst (lift_io r (w, t)) = fst (lift_io r (w, t')) \<and>
   fst (snd (lift_io r (w, t))) = fst (snd (lift_io r (w, t')))"
  "fst (perform op ev (w, t)) = fst (perform op ev (w, t')) \<and>
   fst (snd (perform op ev (w, t))) = fst (snd (perform op ev (w, t')))"
  "fst (emit e (w, t)) = fst (emit e (w, t')) \<and>
   fst (snd (emit e (w, t))) = fst (snd (emit e (w, t')))"
  "fst (import_io env p (w, t)) = fst (import_io env p (w, t')) \<and>
   fst (snd (import_io env p (w, t))) = fst (snd (import_io env p (w, t')))"
  by (auto simp: io_defs split: prod.splits)

lemma blind_if:
  assumes "\<And>w t t'. fst (m (w, t)) = fst (m (w, t')) \<and> fst (snd (m (w, t))) = fst (snd (m (w, t')))"
    and "\<And>w t t'. fst (m' (w, t)) = fst (m' (w, t')) \<and> fst (snd (m' (w, t))) = fst (snd (m' (w, t')))"
  shows "fst ((if c then m else m') (w, t)) = fst ((if c then m else m') (w, t')) \<and>
         fst (snd ((if c then m else m') (w, t))) = fst (snd ((if c then m else m') (w, t')))"
  using assms by simp

lemma blind_case_prod:
  assumes "\<And>a b w t t'. fst (f a b (w, t)) = fst (f a b (w, t')) \<and>
             fst (snd (f a b (w, t))) = fst (snd (f a b (w, t')))"
  shows "fst (case_prod f x (w, t)) = fst (case_prod f x (w, t')) \<and>
         fst (snd (case_prod f x (w, t))) = fst (snd (case_prod f x (w, t')))"
  using assms by (cases x) simp

text \<open>So the handler body, started in \<open>w\<close>, has one result and one final world.\<close>

lemma blind_body:
  "fst (try_catch (POST_try env request) (POST_catch env) (w, t)) =
     fst (try_catch (POST_try env request) (POST_catch env) (w, t')) \<and>
   fst (snd (try_catch (POST_try env request) (POST_catch env) (w, t))) =
     fst (snd (try_catch (POST_try env request) (POST_catch env) (w, t')))"
  unfolding POST_try_def POST_load_def POST_generate_def POST_store_def POST_paywall_def
    POST_respond_def POST_catch_def
  by (intro blind_try_catch blind_bind blind_if blind_case_prod blind_prims)

section \<open>The handler in the small world\<close>

lemmas POST_defs = POST_def POST_io_def try_catch_def POST_try_def POST_load_def POST_generate_def
  POST_store_def POST_paywall_def POST_respond_def POST_catch_def NextResponse_def call_js_def

lemmas demo_defs = demo_env_def demo_body_def demo_modules_def demo_stringify_def
  demo_request_def guest_request_def anonymous_request_def no_email_request_def
  demo_requestBody_def demo_answer_def demo_runnable_def demo_messages_def demo_inserted_def
  demo_upload_def demo_stored_def demo_imports_def

lemma demo_toolConfig_props:
  "get_prop demo_toolConfig ''toolPath'' = Inr (JStr ''claude'')"
  "get_prop demo_toolConfig ''aiModel'' = Inr (JStr ''claude-3-sonnet'')"
  "get_prop demo_toolConfig ''systemMessage'' = Inr (JStr ''You are a helpful assistant'')"
  "get_prop demo_toolConfig ''paywall'' = Inr (JBool True)"
  "get_prop demo_toolConfig ''credits'' = Inr (JNum 5)"
  by (simp_all add: demo_toolConfig_def)

text \<open>A signed-in user with an e-mail address is served and charged.\<close>

lemma demo_run:
  "POST demo_env demo_request [] =
     (Inr \<lparr>status = 200, body = ''slug:generation-1;''\<rparr>,
      ([demo_stored demo_requestBody],
       [Ev_authMiddleware demo_request (Inr \<lparr>status = 200, body = []\<rparr>),
        Ev_request_json demo_request (Inr demo_requestBody)] @ demo_imports @
       [Ev_invoke demo_runnable demo_messages (Inr demo_answer),
        Ev_console_log demo_answer,
        demo_upload demo_requestBody,
        Ev_reduceUserCredits (JStr ''ann@example.org'') (JNum 5) (Inr JUndefined)]))"
  by (simp add: POST_defs io_defs demo_defs demo_toolConfig_props)

text \<open>So is a guest, whose authentication response has status 403.\<close>

lemma guest_run:
  "POST demo_env guest_request [] =
     (Inr \<lparr>status = 200, body = ''slug:generation-1;''\<rparr>,
      ([demo_stored demo_requestBody],
       [Ev_authMiddleware guest_request (Inr \<lparr>status = 403, body = []\<rparr>),
        Ev_request_json guest_request (Inr demo_requestBody)] @ demo_imports @
       [Ev_invoke demo_runnable demo_messages (Inr demo_answer),
        Ev_console_log demo_answer,
        demo_upload demo_requestBody,
        Ev_reduceUserCredits (JStr ''ann@example.org'') (JNum 5) (Inr JUndefined)]))"
  by (simp add: POST_defs io_defs demo_defs demo_toolConfig_props)

text \<open>Without an e-mail address the credit decrement throws, after the row is stored.\<close>

lemma no_email_run:
  "POST demo_env no_email_request [] =
     (Inr \<lparr>status = 500, body = ''status:Error;message:no such user;''\<rparr>,
      ([demo_stored (JObj [(''toolPath'', JStr ''claude'')])],
       [Ev_authMiddleware no_email_request (Inr \<lparr>status = 200, body = []\<rparr>),
        Ev_request_json no_email_request (Inr (JObj [(''toolPath'', JStr ''claude'')]))] @
       demo_imports @
       [Ev_invoke demo_runnable demo_messages (Inr demo_answer),
        Ev_console_log demo_answer,
        demo_upload (JObj [(''toolPath'', JStr ''claude'')]),
        Ev_reduceUserCredits JUndefined (JNum 5) (Inl (Error_instance ''no such user'')),
        Ev_console_error (Error_instance ''no such user'')]))"
  by (simp add: POST_defs io_defs demo_defs demo_toolConfig_props)

lemma demo_auth:
  "authMiddleware demo_env demo_request [] = (Inr \<lparr>status = 200, body = []\<rparr>, [])"
  "authMiddleware demo_env guest_request [] = (Inr \<lparr>status = 403, body = []\<rparr>, [])"
  "authMiddleware demo_env anonymous_request [] = (Inr \<lparr>status = 401, body = []\<rparr>, [])"
  "authMiddleware demo_env no_email_request [] = (Inr \<lparr>status = 200, body = []\<rparr>, [])"
  by (simp_all add: demo_defs)

section \<open>Authentication\<close>

text \<open>
  C1. In every run the first thing that happens is the call of \<^verbatim>\<open>authMiddleware\<close>.
  When the authentication response has status 401, that call is the only thing that
  happens: the handler returns that response unchanged, in the world the middleware
  left; the body was not parsed, no module was loaded, the model was not invoked, nothing
  was written to the database and no credit was taken.
\<close>

theorem authentication_first:
  "\<exists>out w1 rest.
     authMiddleware env request w = (out, w1) \<and>
     trace_of (POST env request w) = Ev_authMiddleware request out # rest \<and>
     (\<forall>authResponse. out = Inr authResponse \<and> status authResponse = 401 \<longrightarrow>
        rest = [] \<and>
        result_of (POST env request w) = Inr authResponse \<and>
        world_of (POST env request w) = w1)"
  using run_parts[of env request w]
  by (cases rule: POST_run_cases) (auto dest!: group_runs)

theorem authentication_first_witness:
  "authMiddleware demo_env anonymous_request [] = (Inr \<lparr>status = 401, body = []\<rparr>, []) \<and>
   status \<lparr>status = 401, body = []\<rparr> = 401 \<and>
   trace_of (POST demo_env anonymous_request []) =
     [Ev_authMiddleware anonymous_request (Inr \<lparr>status = 401, body = []\<rparr>)] \<and>
   result_of (POST demo_env anonymous_request []) = Inr \<lparr>status = 401, body = []\<rparr> \<and>
   world_of (POST demo_env anonymous_request []) = []"
proof -
  have h1: "authMiddleware demo_env anonymous_request [] = (Inr \<lparr>status = 401, body = []\<rparr>, [])"
    by (rule demo_auth)
  have h2: "status \<lparr>status = 401, body = []\<rparr> = 401"
    by simp
  from authentication_first[of demo_env anonymous_request "[]"]
  obtain out w1 rest where
    a: "authMiddleware demo_env anonymous_request [] = (out, w1)" and
    t: "trace_of (POST demo_env anonymous_request []) = Ev_authMiddleware anonymous_request out # rest" and
    c: "\<forall>authResponse. out = Inr authResponse \<and> status authResponse = 401 \<longrightarrow>
        rest = [] \<and>
        result_of (POST demo_env anonymous_request []) = Inr authResponse \<and>
        world_of (POST demo_env anonymous_request []) = w1"
    by blast
  from a h1 have o: "out = Inr \<lparr>status = 401, body = []\<rparr>" and w: "w1 = []"
    by simp_all
  from c o h2 have "rest = [] \<and>
        result_of (POST demo_env anonymous_request []) = Inr \<lparr>status = 401, body = []\<rparr> \<and>
        world_of (POST demo_env anonymous_request []) = w1"
    by blast
  with t o w h1 h2 show ?thesis
    by simp
qed

text \<open>
  C9. Only the status 401 ends the handler early. With any other status of the
  authentication response (403 or 500, say) the handler ignores that response: what it
  returns and the world it leaves are those of the \<^verbatim>\<open>try\<close> block under the
  \<^verbatim>\<open>catch\<close> block, run in the world that the middleware left. The next thing that
  happens is the parsing of the body, and the modules are loaded and the model is invoked
  unless a statement before them throws, which ends in the error response.
\<close>

theorem only_401_short_circuits:
  assumes "authMiddleware env request w = (Inr a, w1)" and "status a \<noteq> 401"
  shows "result_of (POST env request w) =
           fst (try_catch (POST_try env request) (POST_catch env) (w1, [])) \<and>
         world_of (POST env request w) =
           fst (snd (try_catch (POST_try env request) (POST_catch env) (w1, []))) \<and>
         (\<exists>out rest. trace_of (POST env request w) =
            Ev_authMiddleware request (Inr a) # Ev_request_json request out # rest) \<and>
         ((\<exists>path out. Ev_import path out \<in> set (trace_of (POST env request w))) \<or>
          (\<exists>e. result_of (POST env request w) = Inr (error_response env e))) \<and>
         ((\<exists>r msgs out. Ev_invoke r msgs out \<in> set (trace_of (POST env request w))) \<or>
          (\<exists>e. result_of (POST env request w) = Inr (error_response env e)))"
proof (intro conjI)
  show "result_of (POST env request w) =
          fst (try_catch (POST_try env request) (POST_catch env) (w1, []))"
    using blind_body[of env request w1 "[Ev_authMiddleware request (Inr a)]" "[]"]
    by (simp add: POST_authenticated[OF assms] result_of_def)
next
  show "world_of (POST env request w) =
          fst (snd (try_catch (POST_try env request) (POST_catch env) (w1, [])))"
    using blind_body[of env request w1 "[Ev_authMiddleware request (Inr a)]" "[]"]
    by (simp add: POST_authenticated[OF assms] world_of_def)
next
  show "\<exists>out rest. trace_of (POST env request w) =
            Ev_authMiddleware request (Inr a) # Ev_request_json request out # rest"
    using run_parts[of env request w] assms
    by (cases rule: POST_run_cases) (auto dest!: group_runs)
next
  show "(\<exists>path out. Ev_import path out \<in> set (trace_of (POST env request w))) \<or>
          (\<exists>e. result_of (POST env request w) = Inr (error_response env e))"
    using run_parts[of env request w] assms
    by (cases rule: POST_run_cases) (auto dest!: group_runs)
next
  show "(\<exists>r msgs out. Ev_invoke r msgs out \<in> set (trace_of (POST env request w))) \<or>
          (\<exists>e. result_of (POST env request w) = Inr (error_response env e))"
    using run_parts[of env request w] assms
    by (cases rule: POST_run_cases) (auto dest!: group_runs)
qed

theorem only_401_short_circuits_witness:
  "authMiddleware demo_env guest_request [] = (Inr \<lparr>status = 403, body = []\<rparr>, []) \<and>
   status \<lparr>status = 403, body = []\<rparr> \<noteq> 401 \<and>
   (result_of (POST demo_env guest_request []) =
      fst (try_catch (POST_try demo_env guest_request) (POST_catch demo_env) ([], [])) \<and>
    world_of (POST demo_env guest_request []) =
      fst (snd (try_catch (POST_try demo_env guest_request) (POST_catch demo_env) ([], []))) \<and>
    (\<exists>out rest. trace_of (POST demo_env guest_request []) =
       Ev_authMiddleware guest_request (Inr \<lparr>status = 403, body = []\<rparr>) #
       Ev_request_json guest_request out # rest) \<and>
    ((\<exists>path out. Ev_import path out \<in> set (trace_of (POST demo_env guest_request []))) \<or>
     (\<exists>e. result_of (POST demo_env guest_request []) = Inr (error_response demo_env e))) \<and>
    ((\<exists>r msgs out. Ev_invoke r msgs out \<in> set (trace_of (POST demo_env guest_request []))) \<or>
     (\<exists>e. result_of (POST demo_env guest_request []) = Inr (error_response demo_env e)))) \<and>
   Ev_invoke demo_runnable demo_messages (Inr demo_answer)
     \<in> set (trace_of (POST demo_env guest_request [])) \<and>
   result_of (POST demo_env guest_request []) =
     Inr \<lparr>status = 200, body = ''slug:generation-1;''\<rparr>"
proof -
  have h1: "authMiddleware demo_env guest_request [] = (Inr \<lparr>status = 403, body = []\<rparr>, [])"
    by (rule demo_auth)
  have h2: "status \<lparr>status = 403, body = []\<rparr> \<noteq> 401"
    by simp
  have reached: "Ev_invoke demo_runnable demo_messages (Inr demo_answer)
     \<in> set (trace_of (POST demo_env guest_request []))"
    by (simp add: guest_run trace_of_def)
  have served: "result_of (POST demo_env guest_request []) =
     Inr \<lparr>status = 200, body = ''slug:generation-1;''\<rparr>"
    by (simp add: guest_run result_of_def)
  show ?thesis
    by (rule conjI[OF h1 conjI[OF h2 conjI[OF only_401_short_circuits[OF h1 h2]
          conjI[OF reached served]]]])
qed

section \<open>Errors\<close>

text \<open>
  C3. Once authentication has passed, the handler never rethrows. Whatever a statement
  of the \<^verbatim>\<open>try\<close> block throws, the handler returns status 500 with the JSON body
  \<^verbatim>\<open>{status: "Error", message: m}\<close>, where \<open>m\<close> is the message of an \<^verbatim>\<open>Error\<close>
  instance and \<^verbatim>\<open>An unknown error occurred\<close> for any other thrown value. In particular
  this is so when parsing the body, importing a module, invoking the model, the insert
  or the credit decrement throws.
\<close>

theorem catch_all:
  assumes "authMiddleware env request w = (Inr a, w1)" and "status a \<noteq> 401"
  shows "(\<exists>resp. result_of (POST env request w) = Inr resp) \<and>
         (\<forall>e s. POST_try env request (w1, [Ev_authMiddleware request (Inr a)]) = (Inl e, s) \<longrightarrow>
            result_of (POST env request w) =
              Inr \<lparr>status = 500,
                   body = JSON_stringify env
                     (JObj [(''status'', JStr ''Error''), (''message'', JStr (error_message e))])\<rparr>) \<and>
         (\<forall>ev e. ev \<in> set (trace_of (POST env request w)) \<longrightarrow> thrown_by ev = Some e \<longrightarrow>
            result_of (POST env request w) =
              Inr \<lparr>status = 500,
                   body = JSON_stringify env
                     (JObj [(''status'', JStr ''Error''), (''message'', JStr (error_message e))])\<rparr>)"
proof (intro conjI allI impI)
  show "\<exists>resp. result_of (POST env request w) = Inr resp"
    using run_parts[of env request w] assms
    by (cases rule: POST_run_cases) auto
next
  fix e s
  assume "POST_try env request (w1, [Ev_authMiddleware request (Inr a)]) = (Inl e, s)"
  then show "result_of (POST env request w) =
              Inr \<lparr>status = 500,
                   body = JSON_stringify env
                     (JObj [(''status'', JStr ''Error''), (''message'', JStr (error_message e))])\<rparr>"
    by (cases s)
       (simp add: POST_authenticated[OF assms] try_catch_def POST_catch_eq result_of_def
          error_response_def)
next
  fix ev e
  assume "ev \<in> set (trace_of (POST env request w))" and "thrown_by ev = Some e"
  with run_parts[of env request w] assms
  have "result_of (POST env request w) = Inr (error_response env e)"
    by (cases rule: POST_run_cases) (auto dest!: group_runs split: sum.splits)
  then show "result_of (POST env request w) =
              Inr \<lparr>status = 500,
                   body = JSON_stringify env
                     (JObj [(''status'', JStr ''Error''), (''message'', JStr (error_message e))])\<rparr>"
    by (simp add: error_response_def)
qed

theorem catch_all_witness:
  "authMiddleware demo_env no_email_request [] = (Inr \<lparr>status = 200, body = []\<rparr>, []) \<and>
   status \<lparr>status = 200, body = []\<rparr> \<noteq> 401 \<and>
   Ev_reduceUserCredits JUndefined (JNum 5) (Inl (Error_instance ''no such user''))
     \<in> set (trace_of (POST demo_env no_email_request [])) \<and>
   thrown_by (Ev_reduceUserCredits JUndefined (JNum 5)
       (Inl (Error_instance ''no such user'')) :: (chat_config \<times> jsval) event)
     = Some (Error_instance ''no such user'') \<and>
   (\<exists>s. POST_try demo_env no_email_request
          ([], [Ev_authMiddleware no_email_request (Inr \<lparr>status = 200, body = []\<rparr>)])
        = (Inl (Error_instance ''no such user''), s)) \<and>
   result_of (POST demo_env no_email_request []) =
     Inr \<lparr>status = 500, body = ''status:Error;message:no such user;''\<rparr>"
proof -
  have h1: "authMiddleware demo_env no_email_request [] = (Inr \<lparr>status = 200, body = []\<rparr>, [])"
    by (rule demo_auth)
  have h2: "status \<lparr>status = 200, body = []\<rparr> \<noteq> 401"
    by simp
  have h3: "Ev_reduceUserCredits JUndefined (JNum 5) (Inl (Error_instance ''no such user''))
     \<in> set (trace_of (POST demo_env no_email_request []))"
    by (simp add: no_email_run trace_of_def)
  have h4: "thrown_by (Ev_reduceUserCredits JUndefined (JNum 5)
      (Inl (Error_instance ''no such user'')) :: (chat_config \<times> jsval) event)
     = Some (Error_instance ''no such user'')"
    by simp
  have h5: "\<exists>s. POST_try demo_env no_email_request
          ([], [Ev_authMiddleware no_email_request (Inr \<lparr>status = 200, body = []\<rparr>)])
        = (Inl (Error_instance ''no such user''), s)"
    by (simp add: POST_defs io_defs demo_defs demo_toolConfig_props)
  from catch_all[OF h1 h2] h3 h4
  have "result_of (POST demo_env no_email_request []) =
     Inr \<lparr>status = 500,
          body = JSON_stringify demo_env
            (JObj [(''status'', JStr ''Error''),
                   (''message'', JStr (error_message (Error_instance ''no such user'')))])\<rparr>"
    by blast
  then have c: "result_of (POST demo_env no_email_request []) =
     Inr \<lparr>status = 500, body = ''status:Error;message:no such user;''\<rparr>"
    by (simp add: demo_env_def demo_stringify_def error_message_def)
  show ?thesis
    by (rule conjI[OF h1 conjI[OF h2 conjI[OF h3 conjI[OF h4 conjI[OF h5 c]]]]])
qed

text \<open>
  C8. The handler is not atomic. When \<^verbatim>\<open>uploadToSupabase\<close> has succeeded and a later
  step throws (the credit decrement, or reading \<^verbatim>\<open>supabaseResponse[0].slug\<close>), the
  handler answers with status 500 and undoes nothing: the insert is the only call of the
  database mutation, and the world the run ends in is the world the insert left, passed
  through the credit decrement when that was called. The row is still stored, so a 500
  response does not mean that no state was changed.
\<close>

theorem insert_not_rolled_back:
  assumes "Ev_uploadToSupabase rb rd tp am (Inr sr) \<in> set (trace_of (POST env request w))"
    and "(\<exists>email credits x.
            Ev_reduceUserCredits email credits (Inl x) \<in> set (trace_of (POST env request w))) \<or>
         (\<exists>x. get_first sr = Inl x) \<or>
         (\<exists>row x. get_first sr = Inr row \<and> get_prop row ''slug'' = Inl x)"
  shows "(\<exists>resp. result_of (POST env request w) = Inr resp \<and> status resp = 500) \<and>
         filter is_upload (trace_of (POST env request w)) =
           [Ev_uploadToSupabase rb rd tp am (Inr sr)] \<and>
         ((filter is_reduce (trace_of (POST env request w)) = [] \<and>
           (\<exists>w3. uploadToSupabase env rb rd tp am w3 = (Inr sr, world_of (POST env request w)))) \<or>
          (\<exists>email credits out w3 w4.
             filter is_reduce (trace_of (POST env request w)) =
               [Ev_reduceUserCredits email credits out] \<and>
             uploadToSupabase env rb rd tp am w3 = (Inr sr, w4) \<and>
             reduceUserCredits env email credits w4 = (out, world_of (POST env request w))))"
  using run_parts[of env request w] assms
  by (cases rule: POST_run_cases)
     (auto dest!: group_runs dest: get_prop_clash imports_only_mem
        simp: imports_only error_response_def split: sum.splits)

theorem insert_not_rolled_back_witness:
  "demo_upload (JObj [(''toolPath'', JStr ''claude'')])
     \<in> set (trace_of (POST demo_env no_email_request [])) \<and>
   Ev_reduceUserCredits JUndefined (JNum 5) (Inl (Error_instance ''no such user''))
     \<in> set (trace_of (POST demo_env no_email_request [])) \<and>
   (\<exists>resp. result_of (POST demo_env no_email_request []) = Inr resp \<and> status resp = 500) \<and>
   filter is_upload (trace_of (POST demo_env no_email_request [])) =
     [demo_upload (JObj [(''toolPath'', JStr ''claude'')])] \<and>
   world_of (POST demo_env no_email_request []) =
     [demo_stored (JObj [(''toolPath'', JStr ''claude'')])]"
proof -
  have h1: "Ev_uploadToSupabase (JObj [(''toolPath'', JStr ''claude'')]) demo_answer
       (JStr ''claude'') (JStr ''claude-3-sonnet'') (Inr demo_inserted)
     \<in> set (trace_of (POST demo_env no_email_request []))"
    by (simp add: no_email_run trace_of_def demo_upload_def)
  have h2: "Ev_reduceUserCredits JUndefined (JNum 5) (Inl (Error_instance ''no such user''))
     \<in> set (trace_of (POST demo_env no_email_request []))"
    by (simp add: no_email_run trace_of_def)
  have h3: "(\<exists>email credits x.
       Ev_reduceUserCredits email credits (Inl x)
         \<in> set (trace_of (POST demo_env no_email_request []))) \<or>
     (\<exists>x. get_first demo_inserted = Inl x) \<or>
     (\<exists>row x. get_first demo_inserted = Inr row \<and> get_prop row ''slug'' = Inl x)"
    using h2 by blast
  have w: "world_of (POST demo_env no_email_request []) =
     [demo_stored (JObj [(''toolPath'', JStr ''claude'')])]"
    by (simp add: no_email_run world_of_def)
  show ?thesis
    using h1 h2 w insert_not_rolled_back[OF h1 h3]
    by (simp add: demo_upload_def)
qed

section \<open>The pipeline: model, insert, credits\<close>

text \<open>
  C5. The module path is \<^verbatim>\<open>decodeURIComponent(requestBody.toolPath)\<close>. A run imports
  at most three modules, and only the modules \<^verbatim>\<open>toolConfig\<close>, \<^verbatim>\<open>schema\<close> and
  \<^verbatim>\<open>prompt\<close> under that path. Whenever the model is invoked, exactly these three have
  been loaded, in this order, they export \<^verbatim>\<open>toolConfig\<close>, \<^verbatim>\<open>functionSchema\<close> and
  \<^verbatim>\<open>generatePrompt\<close>, and the model is invoked on the chat object made for the model
  \<^verbatim>\<open>toolConfig.aiModel\<close> with at most 2000 tokens, bound to the structured output
  \<^verbatim>\<open>functionSchema[0]\<close>, with the system message \<^verbatim>\<open>String(toolConfig.systemMessage)\<close>
  and the human message \<^verbatim>\<open>String(generatePrompt(requestBody))\<close>.
\<close>

theorem tool_loading:
  "length (filter is_import (trace_of (POST env request w))) \<le> 3 \<and>
   (\<forall>path io. Ev_import path io \<in> set (trace_of (POST env request w)) \<longrightarrow>
      (\<exists>rb raw toolPath.
         Ev_request_json request (Inr rb) \<in> set (trace_of (POST env request w)) \<and>
         get_prop rb ''toolPath'' = Inr raw \<and>
         decodeURIComponent env raw = Inr toolPath \<and>
         (path = ''@/app/'' @ toolPath @ ''/toolConfig'' \<or>
          path = ''@/app/'' @ toolPath @ ''/schema'' \<or>
          path = ''@/app/'' @ toolPath @ ''/prompt''))) \<and>
   (\<forall>r msgs out. Ev_invoke r msgs out \<in> set (trace_of (POST env request w)) \<longrightarrow>
      (\<exists>rb raw toolPath m1 m2 m3 toolConfig functionSchema generatePrompt functionCall
          prompt aiModel chat systemMessage.
         Ev_request_json request (Inr rb) \<in> set (trace_of (POST env request w)) \<and>
         get_prop rb ''toolPath'' = Inr raw \<and>
         decodeURIComponent env raw = Inr toolPath \<and>
         filter is_import (trace_of (POST env request w)) =
           [Ev_import (''@/app/'' @ toolPath @ ''/toolConfig'') (Inr m1),
            Ev_import (''@/app/'' @ toolPath @ ''/schema'') (Inr m2),
            Ev_import (''@/app/'' @ toolPath @ ''/prompt'') (Inr m3)] \<and>
         get_prop m1 ''toolConfig'' = Inr toolConfig \<and>
         get_prop m2 ''functionSchema'' = Inr functionSchema \<and>
         get_prop m3 ''generatePrompt'' = Inr generatePrompt \<and>
         get_first functionSchema = Inr functionCall \<and>
         call_js env ''generatePrompt'' generatePrompt [rb] = Inr prompt \<and>
         get_prop toolConfig ''aiModel'' = Inr aiModel \<and>
         ChatAnthropic env \<lparr>model = aiModel, maxTokens = 2000\<rparr> = Inr chat \<and>
         withStructuredOutput env chat functionCall = Inr r \<and>
         get_prop toolConfig ''systemMessage'' = Inr systemMessage \<and>
         msgs = [(''system'', String_js env systemMessage), (''human'', String_js env prompt)]))"
proof (intro conjI allI impI)
  show "length (filter is_import (trace_of (POST env request w))) \<le> 3"
    using run_parts[of env request w]
    by (cases rule: POST_run_cases)
       (auto dest!: POST_load_Inl_paths POST_load_Inr POST_generate_run POST_store_run
          POST_paywall_run POST_respond_run split: sum.splits)
next
  fix path io
  assume "Ev_import path io \<in> set (trace_of (POST env request w))"
  with run_parts[of env request w]
  show "\<exists>rb raw toolPath.
         Ev_request_json request (Inr rb) \<in> set (trace_of (POST env request w)) \<and>
         get_prop rb ''toolPath'' = Inr raw \<and>
         decodeURIComponent env raw = Inr toolPath \<and>
         (path = ''@/app/'' @ toolPath @ ''/toolConfig'' \<or>
          path = ''@/app/'' @ toolPath @ ''/schema'' \<or>
          path = ''@/app/'' @ toolPath @ ''/prompt'')"
    by (cases rule: POST_run_cases)
       (auto dest!: POST_load_Inl_paths POST_load_Inr POST_generate_run POST_store_run
          POST_paywall_run POST_respond_run split: sum.splits, blast)
next
  fix r msgs out
  assume "Ev_invoke r msgs out \<in> set (trace_of (POST env request w))"
  with run_parts[of env request w]
  show "\<exists>rb raw toolPath m1 m2 m3 toolConfig functionSchema generatePrompt functionCall
          prompt aiModel chat systemMessage.
         Ev_request_json request (Inr rb) \<in> set (trace_of (POST env request w)) \<and>
         get_prop rb ''toolPath'' = Inr raw \<and>
         decodeURIComponent env raw = Inr toolPath \<and>
         filter is_import (trace_of (POST env request w)) =
           [Ev_import (''@/app/'' @ toolPath @ ''/toolConfig'') (Inr m1),
            Ev_import (''@/app/'' @ toolPath @ ''/schema'') (Inr m2),
            Ev_import (''@/app/'' @ toolPath @ ''/prompt'') (Inr m3)] \<and>
         get_prop m1 ''toolConfig'' = Inr toolConfig \<and>
         get_prop m2 ''functionSchema'' = Inr functionSchema \<and>
         get_prop m3 ''generatePrompt'' = Inr generatePrompt \<and>
         get_first functionSchema = Inr functionCall \<and>
         call_js env ''generatePrompt'' generatePrompt [rb] = Inr prompt \<and>
         get_prop toolConfig ''aiModel'' = Inr aiModel \<and>
         ChatAnthropic env \<lparr>model = aiModel, maxTokens = 2000\<rparr> = Inr chat \<and>
         withStructuredOutput env chat functionCall = Inr r \<and>
         get_prop toolConfig ''systemMessage'' = Inr systemMessage \<and>
         msgs = [(''system'', String_js env systemMessage), (''human'', String_js env prompt)]"
    by (cases rule: POST_run_cases)
       (auto dest!: group_runs dest: imports_only_mem split: sum.splits)
qed

theorem tool_loading_witness:
  "Ev_import ''@/app/claude/schema''
       (Inr (JObj [(''functionSchema'', JArr [JObj [(''name'', JStr ''reply'')]])]))
     \<in> set (trace_of (POST demo_env demo_request [])) \<and>
   Ev_invoke demo_runnable demo_messages (Inr demo_answer)
     \<in> set (trace_of (POST demo_env demo_request [])) \<and>
   length (filter is_import (trace_of (POST demo_env demo_request []))) \<le> 3 \<and>
   (\<exists>rb raw toolPath.
      Ev_request_json demo_request (Inr rb) \<in> set (trace_of (POST demo_env demo_request [])) \<and>
      get_prop rb ''toolPath'' = Inr raw \<and>
      decodeURIComponent demo_env raw = Inr toolPath \<and>
      (''@/app/claude/schema'' = ''@/app/'' @ toolPath @ ''/toolConfig'' \<or>
       ''@/app/claude/schema'' = ''@/app/'' @ toolPath @ ''/schema'' \<or>
       ''@/app/claude/schema'' = ''@/app/'' @ toolPath @ ''/prompt'')) \<and>
   (\<exists>rb raw toolPath m1 m2 m3 toolConfig functionSchema generatePrompt functionCall
       prompt aiModel chat systemMessage.
      Ev_request_json demo_request (Inr rb) \<in> set (trace_of (POST demo_env demo_request [])) \<and>
      get_prop rb ''toolPath'' = Inr raw \<and>
      decodeURIComponent demo_env raw = Inr toolPath \<and>
      filter is_import (trace_of (POST demo_env demo_request [])) =
        [Ev_import (''@/app/'' @ toolPath @ ''/toolConfig'') (Inr m1),
         Ev_import (''@/app/'' @ toolPath @ ''/schema'') (Inr m2),
         Ev_import (''@/app/'' @ toolPath @ ''/prompt'') (Inr m3)] \<and>
      get_prop m1 ''toolConfig'' = Inr toolConfig \<and>
      get_prop m2 ''functionSchema'' = Inr functionSchema \<and>
      get_prop m3 ''generatePrompt'' = Inr generatePrompt \<and>
      get_first functionSchema = Inr functionCall \<and>
      call_js demo_env ''generatePrompt'' generatePrompt [rb] = Inr prompt \<and>
      get_prop toolConfig ''aiModel'' = Inr aiModel \<and>
      ChatAnthropic demo_env \<lparr>model = aiModel, maxTokens = 2000\<rparr> = Inr chat \<and>
      withStructuredOutput demo_env chat functionCall = Inr demo_runnable \<and>
      get_prop toolConfig ''systemMessage'' = Inr systemMessage \<and>
      demo_messages =
        [(''system'', String_js demo_env systemMessage), (''human'', String_js demo_env prompt)])"
proof -
  have h1: "Ev_import ''@/app/claude/schema''
       (Inr (JObj [(''functionSchema'', JArr [JObj [(''name'', JStr ''reply'')]])]))
     \<in> set (trace_of (POST demo_env demo_request []))"
    by (simp add: demo_run trace_of_def demo_imports_def)
  have h2: "Ev_invoke demo_runnable demo_messages (Inr demo_answer)
     \<in> set (trace_of (POST demo_env demo_request []))"
    by (simp add: demo_run trace_of_def)
  note t = tool_loading[of demo_env demo_request "[]"]
  from t have c1: "length (filter is_import (trace_of (POST demo_env demo_request []))) \<le> 3"
    by (rule conjunct1)
  from t h1 have c2: "\<exists>rb raw toolPath.
      Ev_request_json demo_request (Inr rb) \<in> set (trace_of (POST demo_env demo_request [])) \<and>
      get_prop rb ''toolPath'' = Inr raw \<and>
      decodeURIComponent demo_env raw = Inr toolPath \<and>
      (''@/app/claude/schema'' = ''@/app/'' @ toolPath @ ''/toolConfig'' \<or>
       ''@/app/claude/schema'' = ''@/app/'' @ toolPath @ ''/schema'' \<or>
       ''@/app/claude/schema'' = ''@/app/'' @ toolPath @ ''/prompt'')"
    by (elim conjE allE[of _ "''@/app/claude/schema''"]
          allE[of _ "Inr (JObj [(''functionSchema'', JArr [JObj [(''name'', JStr ''reply'')]])])"]
          impE) assumption+
  from t h2 have c3: "\<exists>rb raw toolPath m1 m2 m3 toolConfig functionSchema generatePrompt
       functionCall prompt aiModel chat systemMessage.
      Ev_request_json demo_request (Inr rb) \<in> set (trace_of (POST demo_env demo_request [])) \<and>
      get_prop rb ''toolPath'' = Inr raw \<and>
      decodeURIComponent demo_env raw = Inr toolPath \<and>
      filter is_import (trace_of (POST demo_env demo_request [])) =
        [Ev_import (''@/app/'' @ toolPath @ ''/toolConfig'') (Inr m1),
         Ev_import (''@/app/'' @ toolPath @ ''/schema'') (Inr m2),
         Ev_import (''@/app/'' @ toolPath @ ''/prompt'') (Inr m3)] \<and>
      get_prop m1 ''toolConfig'' = Inr toolConfig \<and>
      get_prop m2 ''functionSchema'' = Inr functionSchema \<and>
      get_prop m3 ''generatePrompt'' = Inr generatePrompt \<and>
      get_first functionSchema = Inr functionCall \<and>
      call_js demo_env ''generatePrompt'' generatePrompt [rb] = Inr prompt \<and>
      get_prop toolConfig ''aiModel'' = Inr aiModel \<and>
      ChatAnthropic demo_env \<lparr>model = aiModel, maxTokens = 2000\<rparr> = Inr chat \<and>
      withStructuredOutput demo_env chat functionCall = Inr demo_runnable \<and>
      get_prop toolConfig ''systemMessage'' = Inr systemMessage \<and>
      demo_messages =
        [(''system'', String_js demo_env systemMessage), (''human'', String_js demo_env prompt)]"
    by (elim conjE allE[of _ demo_runnable] allE[of _ demo_messages]
          allE[of _ "Inr demo_answer"] impE) assumption+
  show ?thesis
    by (rule conjI[OF h1 conjI[OF h2 conjI[OF c1 conjI[OF c2 c3]]]])
qed

text \<open>
  C4. In a run that succeeds (status 200) the three library calls happen in this order:
  the model is invoked and answers; then \<^verbatim>\<open>uploadToSupabase\<close> is called with that
  answer and returns; then, when the tool is behind the paywall, \<^verbatim>\<open>reduceUserCredits\<close>
  is called and returns. So no row is written before the model has answered, and no
  credit is taken before the row is written.
\<close>

theorem pipeline_order:
  assumes "result_of (POST env request w) = Inr resp" and "status resp = 200"
  shows "\<exists>r msgs rd rb tp am sr credit_calls.
           filter is_pipeline_call (trace_of (POST env request w)) =
             Ev_invoke r msgs (Inr rd) # Ev_uploadToSupabase rb rd tp am (Inr sr) # credit_calls \<and>
           (\<exists>raw toolPath m toolConfig.
              get_prop rb ''toolPath'' = Inr raw \<and>
              decodeURIComponent env raw = Inr toolPath \<and>
              import_module env (''@/app/'' @ toolPath @ ''/toolConfig'') = Inr m \<and>
              get_prop m ''toolConfig'' = Inr toolConfig \<and>
              ((get_prop toolConfig ''paywall'' = Inr (JBool True) \<and>
                (\<exists>email credits out.
                   credit_calls = [Ev_reduceUserCredits email credits (Inr out)])) \<or>
               (get_prop toolConfig ''paywall'' \<noteq> Inr (JBool True) \<and> credit_calls = [])))"
  using run_parts[of env request w] assms
  by (cases rule: POST_run_cases)
     (auto dest!: group_runs dest: get_prop_clash simp: is_pipeline_call_def error_response_def)

theorem pipeline_order_witness:
  "result_of (POST demo_env demo_request []) =
     Inr \<lparr>status = 200, body = ''slug:generation-1;''\<rparr> \<and>
   status \<lparr>status = 200, body = ''slug:generation-1;''\<rparr> = 200 \<and>
   (\<exists>r msgs rd rb tp am sr credit_calls.
      filter is_pipeline_call (trace_of (POST demo_env demo_request [])) =
        Ev_invoke r msgs (Inr rd) # Ev_uploadToSupabase rb rd tp am (Inr sr) # credit_calls \<and>
      (\<exists>raw toolPath m toolConfig.
         get_prop rb ''toolPath'' = Inr raw \<and>
         decodeURIComponent demo_env raw = Inr toolPath \<and>
         import_module demo_env (''@/app/'' @ toolPath @ ''/toolConfig'') = Inr m \<and>
         get_prop m ''toolConfig'' = Inr toolConfig \<and>
         ((get_prop toolConfig ''paywall'' = Inr (JBool True) \<and>
           (\<exists>email credits out.
              credit_calls = [Ev_reduceUserCredits email credits (Inr out)])) \<or>
          (get_prop toolConfig ''paywall'' \<noteq> Inr (JBool True) \<and> credit_calls = []))))"
proof -
  have h1: "result_of (POST demo_env demo_request []) =
     Inr \<lparr>status = 200, body = ''slug:generation-1;''\<rparr>"
    by (simp add: demo_run result_of_def)
  have h2: "status \<lparr>status = 200, body = ''slug:generation-1;''\<rparr> = 200"
    by simp
  show ?thesis
    by (rule conjI[OF h1 conjI[OF h2 pipeline_order[OF h1 h2]]])
qed

text \<open>
  C6. A run invokes the model at most once and calls \<^verbatim>\<open>uploadToSupabase\<close> at most
  once. A run that returns status 200 did each exactly once, and the body of its response
  is \<^verbatim>\<open>JSON.stringify({slug: s})\<close> where \<open>s\<close> is the \<^verbatim>\<open>slug\<close> of the first element of
  what \<^verbatim>\<open>uploadToSupabase\<close> returned.
\<close>

theorem one_invoke_one_row:
  "length (filter is_invoke (trace_of (POST env request w))) \<le> 1 \<and>
   length (filter is_upload (trace_of (POST env request w))) \<le> 1 \<and>
   (\<forall>resp. result_of (POST env request w) = Inr resp \<and> status resp = 200 \<longrightarrow>
      length (filter is_invoke (trace_of (POST env request w))) = 1 \<and>
      (\<exists>rb rd tp am sr row slug.
         filter is_upload (trace_of (POST env request w)) =
           [Ev_uploadToSupabase rb rd tp am (Inr sr)] \<and>
         get_first sr = Inr row \<and> get_prop row ''slug'' = Inr slug \<and>
         body resp = JSON_stringify env (JObj [(''slug'', slug)])))"
  using run_parts[of env request w]
  by (cases rule: POST_run_cases)
     (auto dest!: group_runs simp: imports_only error_response_def split: sum.splits)

theorem one_invoke_one_row_witness:
  "result_of (POST demo_env demo_request []) =
     Inr \<lparr>status = 200, body = ''slug:generation-1;''\<rparr> \<and>
   status \<lparr>status = 200, body = ''slug:generation-1;''\<rparr> = 200 \<and>
   length (filter is_invoke (trace_of (POST demo_env demo_request []))) = 1 \<and>
   (\<exists>rb rd tp am sr row slug.
      filter is_upload (trace_of (POST demo_env demo_request [])) =
        [Ev_uploadToSupabase rb rd tp am (Inr sr)] \<and>
      get_first sr = Inr row \<and> get_prop row ''slug'' = Inr slug \<and>
      body \<lparr>status = 200, body = ''slug:generation-1;''\<rparr> =
        JSON_stringify demo_env (JObj [(''slug'', slug)]))"
proof -
  have h1: "result_of (POST demo_env demo_request []) =
     Inr \<lparr>status = 200, body = ''slug:generation-1;''\<rparr>"
    by (simp add: demo_run result_of_def)
  have h2: "status \<lparr>status = 200, body = ''slug:generation-1;''\<rparr> = 200"
    by simp
  from one_invoke_one_row[of demo_env demo_request "[]"]
  have "result_of (POST demo_env demo_request []) =
          Inr \<lparr>status = 200, body = ''slug:generation-1;''\<rparr> \<and>
        status \<lparr>status = 200, body = ''slug:generation-1;''\<rparr> = 200 \<longrightarrow>
        length (filter is_invoke (trace_of (POST demo_env demo_request []))) = 1 \<and>
        (\<exists>rb rd tp am sr row slug.
           filter is_upload (trace_of (POST demo_env demo_request [])) =
             [Ev_uploadToSupabase rb rd tp am (Inr sr)] \<and>
           get_first sr = Inr row \<and> get_prop row ''slug'' = Inr slug \<and>
           body \<lparr>status = 200, body = ''slug:generation-1;''\<rparr> =
             JSON_stringify demo_env (JObj [(''slug'', slug)]))"
    by (elim conjE allE[of _ "\<lparr>status = 200, body = ''slug:generation-1;''\<rparr>"])
  with h1 h2 show ?thesis
    by (intro conjI) (elim impE conjE, rule conjI, assumption+)+
qed

text \<open>
  C2. In a run that has passed authentication and in which the model invocation and the
  insert have succeeded, \<^verbatim>\<open>reduceUserCredits\<close> is called if and only if
  \<^verbatim>\<open>toolConfig.paywall\<close> is the boolean \<^verbatim>\<open>true\<close>; any other value (absent, false, or a
  truthy value such as the string \<^verbatim>\<open>"true"\<close>) means that no credit is taken. When it is
  called, its arguments are \<^verbatim>\<open>requestBody.email\<close> and \<^verbatim>\<open>toolConfig.credits\<close>.
\<close>

theorem paywall_gate:
  assumes "authMiddleware env request w = (Inr a, w1)" and "status a \<noteq> 401"
    and "Ev_invoke r msgs (Inr rd) \<in> set (trace_of (POST env request w))"
    and "Ev_uploadToSupabase rb rd tp am (Inr sr) \<in> set (trace_of (POST env request w))"
  shows "\<exists>raw toolPath m toolConfig.
           get_prop rb ''toolPath'' = Inr raw \<and>
           decodeURIComponent env raw = Inr toolPath \<and>
           import_module env (''@/app/'' @ toolPath @ ''/toolConfig'') = Inr m \<and>
           get_prop m ''toolConfig'' = Inr toolConfig \<and>
           ((\<exists>email credits out.
               Ev_reduceUserCredits email credits out \<in> set (trace_of (POST env request w)))
             = (get_prop toolConfig ''paywall'' = Inr (JBool True))) \<and>
           (\<forall>email credits out.
               Ev_reduceUserCredits email credits out \<in> set (trace_of (POST env request w)) \<longrightarrow>
               get_prop rb ''email'' = Inr email \<and> get_prop toolConfig ''credits'' = Inr credits)"
  using run_parts[of env request w] assms(3,4)
  by (cases rule: POST_run_cases)
     (auto dest!: group_runs dest: get_prop_clash imports_only_mem)

theorem paywall_gate_witness:
  "authMiddleware demo_env demo_request [] = (Inr \<lparr>status = 200, body = []\<rparr>, []) \<and>
   status \<lparr>status = 200, body = []\<rparr> \<noteq> 401 \<and>
   Ev_invoke demo_runnable demo_messages (Inr demo_answer)
     \<in> set (trace_of (POST demo_env demo_request [])) \<and>
   Ev_uploadToSupabase demo_requestBody demo_answer (JStr ''claude'') (JStr ''claude-3-sonnet'')
       (Inr demo_inserted)
     \<in> set (trace_of (POST demo_env demo_request [])) \<and>
   Ev_reduceUserCredits (JStr ''ann@example.org'') (JNum 5) (Inr JUndefined)
     \<in> set (trace_of (POST demo_env demo_request [])) \<and>
   get_prop demo_requestBody ''email'' = Inr (JStr ''ann@example.org'') \<and>
   (\<exists>raw toolPath m toolConfig.
      get_prop demo_requestBody ''toolPath'' = Inr raw \<and>
      decodeURIComponent demo_env raw = Inr toolPath \<and>
      import_module demo_env (''@/app/'' @ toolPath @ ''/toolConfig'') = Inr m \<and>
      get_prop m ''toolConfig'' = Inr toolConfig \<and>
      get_prop toolConfig ''paywall'' = Inr (JBool True) \<and>
      get_prop toolConfig ''credits'' = Inr (JNum 5))"
proof -
  have h1: "authMiddleware demo_env demo_request [] = (Inr \<lparr>status = 200, body = []\<rparr>, [])"
    by (rule demo_auth)
  have h2: "status \<lparr>status = 200, body = []\<rparr> \<noteq> 401"
    by simp
  have h3: "Ev_invoke demo_runnable demo_messages (Inr demo_answer)
     \<in> set (trace_of (POST demo_env demo_request []))"
    by (simp add: demo_run trace_of_def)
  have h4: "Ev_uploadToSupabase demo_requestBody demo_answer (JStr ''claude'')
       (JStr ''claude-3-sonnet'') (Inr demo_inserted)
     \<in> set (trace_of (POST demo_env demo_request []))"
    by (simp add: demo_run trace_of_def demo_upload_def)
  have h5: "Ev_reduceUserCredits (JStr ''ann@example.org'') (JNum 5) (Inr JUndefined)
     \<in> set (trace_of (POST demo_env demo_request []))"
    by (simp add: demo_run trace_of_def)
  from paywall_gate[OF h1 h2 h3 h4] h5
  have c: "get_prop demo_requestBody ''email'' = Inr (JStr ''ann@example.org'') \<and>
   (\<exists>raw toolPath m toolConfig.
      get_prop demo_requestBody ''toolPath'' = Inr raw \<and>
      decodeURIComponent demo_env raw = Inr toolPath \<and>
      import_module demo_env (''@/app/'' @ toolPath @ ''/toolConfig'') = Inr m \<and>
      get_prop m ''toolConfig'' = Inr toolConfig \<and>
      get_prop toolConfig ''paywall'' = Inr (JBool True) \<and>
      get_prop toolConfig ''credits'' = Inr (JNum 5))"
    by blast
  show ?thesis
    by (rule conjI[OF h1 conjI[OF h2 conjI[OF h3 conjI[OF h4 conjI[OF h5 c]]]]])
qed

text \<open>
  C10. Who is charged is decided by the request body alone, not by who is signed in. Two
  requests with the same body that both pass authentication, as different users or on
  different worlds, call \<^verbatim>\<open>reduceUserCredits\<close> with the same e-mail address, which is
  \<^verbatim>\<open>requestBody.email\<close>, and the same amount, which is the \<^verbatim>\<open>credits\<close> of the tool
  that the body names.
\<close>

theorem charged_account_from_body:
  assumes "authMiddleware env request1 w1 = (Inr a1, w1')" and "status a1 \<noteq> 401"
    and "authMiddleware env request2 w2 = (Inr a2, w2')" and "status a2 \<noteq> 401"
    and "Ev_request_json request1 (Inr rb) \<in> set (trace_of (POST env request1 w1))"
    and "Ev_request_json request2 (Inr rb) \<in> set (trace_of (POST env request2 w2))"
    and "Ev_reduceUserCredits email1 credits1 out1 \<in> set (trace_of (POST env request1 w1))"
    and "Ev_reduceUserCredits email2 credits2 out2 \<in> set (trace_of (POST env request2 w2))"
  shows "email1 = email2 \<and> credits1 = credits2 \<and> get_prop rb ''email'' = Inr email1 \<and>
         (\<exists>raw toolPath m toolConfig.
            get_prop rb ''toolPath'' = Inr raw \<and>
            decodeURIComponent env raw = Inr toolPath \<and>
            import_module env (''@/app/'' @ toolPath @ ''/toolConfig'') = Inr m \<and>
            get_prop m ''toolConfig'' = Inr toolConfig \<and>
            get_prop toolConfig ''credits'' = Inr credits1)"
proof -
  have args: "get_prop rb ''email'' = Inr email \<and>
         (\<exists>raw toolPath m toolConfig.
            get_prop rb ''toolPath'' = Inr raw \<and>
            decodeURIComponent env raw = Inr toolPath \<and>
            import_module env (''@/app/'' @ toolPath @ ''/toolConfig'') = Inr m \<and>
            get_prop m ''toolConfig'' = Inr toolConfig \<and>
            get_prop toolConfig ''credits'' = Inr credits)"
    if "Ev_request_json request (Inr rb) \<in> set (trace_of (POST env request w))"
      and "Ev_reduceUserCredits email credits out \<in> set (trace_of (POST env request w))"
    for request w email credits out
    using run_parts[of env request w] that
    by (cases rule: POST_run_cases)
       (auto dest!: group_runs dest: imports_only_mem split: sum.splits)
  from args[OF assms(5) assms(7)] args[OF assms(6) assms(8)] show ?thesis
    by auto
qed

theorem charged_account_from_body_witness:
  "authMiddleware demo_env demo_request [] = (Inr \<lparr>status = 200, body = []\<rparr>, []) \<and>
   status \<lparr>status = 200, body = []\<rparr> \<noteq> 401 \<and>
   authMiddleware demo_env guest_request [] = (Inr \<lparr>status = 403, body = []\<rparr>, []) \<and>
   status \<lparr>status = 403, body = []\<rparr> \<noteq> 401 \<and>
   Ev_request_json demo_request (Inr demo_requestBody)
     \<in> set (trace_of (POST demo_env demo_request [])) \<and>
   Ev_request_json guest_request (Inr demo_requestBody)
     \<in> set (trace_of (POST demo_env guest_request [])) \<and>
   Ev_reduceUserCredits (JStr ''ann@example.org'') (JNum 5) (Inr JUndefined)
     \<in> set (trace_of (POST demo_env demo_request [])) \<and>
   Ev_reduceUserCredits (JStr ''ann@example.org'') (JNum 5) (Inr JUndefined)
     \<in> set (trace_of (POST demo_env guest_request [])) \<and>
   (JStr ''ann@example.org'' = JStr ''ann@example.org'' \<and> JNum 5 = JNum 5 \<and>
    get_prop demo_requestBody ''email'' = Inr (JStr ''ann@example.org'') \<and>
    (\<exists>raw toolPath m toolConfig.
       get_prop demo_requestBody ''toolPath'' = Inr raw \<and>
       decodeURIComponent demo_env raw = Inr toolPath \<and>
       import_module demo_env (''@/app/'' @ toolPath @ ''/toolConfig'') = Inr m \<and>
       get_prop m ''toolConfig'' = Inr toolConfig \<and>
       get_prop toolConfig ''credits'' = Inr (JNum 5)))"
proof -
  have h1: "authMiddleware demo_env demo_request [] = (Inr \<lparr>status = 200, body = []\<rparr>, [])"
    by (rule demo_auth)
  have h2: "status \<lparr>status = 200, body = []\<rparr> \<noteq> 401"
    by simp
  have h3: "authMiddleware demo_env guest_request [] = (Inr \<lparr>status = 403, body = []\<rparr>, [])"
    by (rule demo_auth)
  have h4: "status \<lparr>status = 403, body = []\<rparr> \<noteq> 401"
    by simp
  have h5: "Ev_request_json demo_request (Inr demo_requestBody)
     \<in> set (trace_of (POST demo_env demo_request []))"
    by (simp add: demo_run trace_of_def)
  have h6: "Ev_request_json guest_request (Inr demo_requestBody)
     \<in> set (trace_of (POST demo_env guest_request []))"
    by (simp add: guest_run trace_of_def)
  have h7: "Ev_reduceUserCredits (JStr ''ann@example.org'') (JNum 5) (Inr JUndefined)
     \<in> set (trace_of (POST demo_env demo_request []))"
    by (simp add: demo_run trace_of_def)
  have h8: "Ev_reduceUserCredits (JStr ''ann@example.org'') (JNum 5) (Inr JUndefined)
     \<in> set (trace_of (POST demo_env guest_request []))"
    by (simp add: guest_run trace_of_def)
  show ?thesis
    by (rule conjI[OF h1 conjI[OF h2 conjI[OF h3 conjI[OF h4 conjI[OF h5 conjI[OF h6
          conjI[OF h7 conjI[OF h8
            charged_account_from_body[OF h1 h2 h3 h4 h5 h6 h7 h8]]]]]]]]])
qed

section \<open>The page\<close>

text \<open>
  C7. The GPT tool page is a pure rendering component. For a \<^verbatim>\<open>toolConfig\<close> that has a
  \<^verbatim>\<open>company\<close>, every render returns the same composition: navigation bar, hero, how it
  works, pricing, testimonials, call to action, FAQ and footer inside one themed
  \<^verbatim>\<open>div\<close>. The theme, the company and the navigation and footer configuration are read
  from \<^verbatim>\<open>toolConfig\<close>, and so is the metadata of the page. Rendering changes nothing:
  the world and the trace are as before.
\<close>

theorem page_is_fixed_composition:
  assumes "get_prop toolConfig ''company'' = Inr company"
    and "get_prop company ''theme'' = Inr theme"
    and "get_prop toolConfig ''navbarLanding'' = Inr navbarLanding"
    and "get_prop toolConfig ''footerLanding'' = Inr footerLanding"
    and "get_prop toolConfig ''metadata'' = Inr md"
    and "get_prop md ''title'' = Inr title"
    and "get_prop md ''description'' = Inr description"
    and "get_prop md ''og_image'' = Inr og_image"
    and "get_prop md ''canonical'' = Inr canonical"
  shows "Page toolConfig (w, tr) =
           (Inr (Fragment
             [Div [(''data-theme'', theme)]
               [Component_element Navbar
                  [(''companyConfig'', company), (''navbarConfig'', navbarLanding)],
                Component_element Hero [],
                Component_element How [],
                Component_element Pricing [],
                Component_element Testimonials [],
                Component_element CTA [],
                Component_element FAQ [],
                Component_element Footer
                  [(''companyConfig'', company), (''footerConfig'', footerLanding)]]]),
            (w, tr)) \<and>
         map_sum id sections (fst (Page toolConfig (w, tr))) =
           Inr [Navbar, Hero, How, Pricing, Testimonials, CTA, FAQ, Footer] \<and>
         metadata toolConfig =
           Inr (JObj
             [(''title'', title),
              (''description'', description),
              (''openGraph'', JObj [(''images'', JArr [og_image])]),
              (''alternates'', JObj [(''canonical'', canonical)])])"
  using assms by (simp add: Page_def io_defs metadata_def bind_result_def)

theorem page_is_fixed_composition_witness:
  "get_prop demo_toolConfig ''company'' = Inr (JObj [(''name'', JStr ''Acme''), (''theme'', JStr ''light'')]) \<and>
   get_prop (JObj [(''name'', JStr ''Acme''), (''theme'', JStr ''light'')]) ''theme'' = Inr (JStr ''light'') \<and>
   get_prop demo_toolConfig ''navbarLanding'' = Inr (JObj [(''links'', JArr [])]) \<and>
   get_prop demo_toolConfig ''footerLanding'' = Inr (JObj [(''copyright'', JStr ''Acme'')]) \<and>
   get_prop demo_toolConfig ''metadata'' = Inr demo_metadata \<and>
   get_prop demo_metadata ''title'' = Inr (JStr ''Acme GPT'') \<and>
   get_prop demo_metadata ''description'' = Inr (JStr ''Generate text'') \<and>
   get_prop demo_metadata ''og_image'' = Inr (JStr ''/og.png'') \<and>
   get_prop demo_metadata ''canonical'' = Inr (JStr ''https://acme.example/gpt'') \<and>
   (Page demo_toolConfig ((), [] :: unit event list) =
      (Inr (Fragment
        [Div [(''data-theme'', JStr ''light'')]
          [Component_element Navbar
             [(''companyConfig'', JObj [(''name'', JStr ''Acme''), (''theme'', JStr ''light'')]),
              (''navbarConfig'', JObj [(''links'', JArr [])])],
           Component_element Hero [],
           Component_element How [],
           Component_element Pricing [],
           Component_element Testimonials [],
           Component_element CTA [],
           Component_element FAQ [],
           Component_element Footer
             [(''companyConfig'', JObj [(''name'', JStr ''Acme''), (''theme'', JStr ''light'')]),
              (''footerConfig'', JObj [(''copyright'', JStr ''Acme'')])]]]),
       ((), [])) \<and>
    map_sum id sections (fst (Page demo_toolConfig ((), [] :: unit event list))) =
      Inr [Navbar, Hero, How, Pricing, Testimonials, CTA, FAQ, Footer] \<and>
    metadata demo_toolConfig =
      Inr (JObj
        [(''title'', JStr ''Acme GPT''),
         (''description'', JStr ''Generate text''),
         (''openGraph'', JObj [(''images'', JArr [JStr ''/og.png''])]),
         (''alternates'', JObj [(''canonical'', JStr ''https://acme.example/gpt'')])]))"
proof -
  have h1: "get_prop demo_toolConfig ''company'' =
      Inr (JObj [(''name'', JStr ''Acme''), (''theme'', JStr ''light'')])"
    by (simp add: demo_toolConfig_def)
  have h2: "get_prop (JObj [(''name'', JStr ''Acme''), (''theme'', JStr ''light'')]) ''theme'' =
      Inr (JStr ''light'')"
    by simp
  have h3: "get_prop demo_toolConfig ''navbarLanding'' = Inr (JObj [(''links'', JArr [])])"
    by (simp add: demo_toolConfig_def)
  have h4: "get_prop demo_toolConfig ''footerLanding'' = Inr (JObj [(''copyright'', JStr ''Acme'')])"
    by (simp add: demo_toolConfig_def)
  have h5: "get_prop demo_toolConfig ''metadata'' = Inr demo_metadata"
    by (simp add: demo_toolConfig_def)
  have h6: "get_prop demo_metadata ''title'' = Inr (JStr ''Acme GPT'')"
    by (simp add: demo_metadata_def)
  have h7: "get_prop demo_metadata ''description'' = Inr (JStr ''Generate text'')"
    by (simp add: demo_metadata_def)
  have h8: "get_prop demo_metadata ''og_image'' = Inr (JStr ''/og.png'')"
    by (simp add: demo_metadata_def)
  have h9: "get_prop demo_metadata ''canonical'' = Inr (JStr ''https://acme.example/gpt'')"
    by (simp add: demo_metadata_def)
  show ?thesis
    by (rule conjI[OF h1 conjI[OF h2 conjI[OF h3 conjI[OF h4 conjI[OF h5 conjI[OF h6
          conjI[OF h7 conjI[OF h8 conjI[OF h9
            page_is_fixed_composition[OF h1 h2 h3 h4 h5 h6 h7 h8 h9]]]]]]]]]])
qed

end
